theory Spec2Isabelle
  imports Main "HOL-Library.Sublist"
begin

section \<open>Instance creation of the Orchestrate API service\<close>

text \<open>
  A shallow embedding of \<^verbatim>\<open>src/api/orchestrateapi/commands/instances/create.py\<close>.
  Python strings are \<^typ>\<open>string\<close>; every exception the module can raise is a value
  of \<open>error\<close>, and a function that may raise returns \<open>error + 'a\<close> with \<open>Inl\<close>
  for the exception. The Compute Engine client (the module-level \<^verbatim>\<open>compute\<close>) is a
  record of functions passed to every operation that calls it.
\<close>

subsection \<open>Exceptions\<close>

text \<open>
  \<open>OrchestrateInstanceCreationError\<close> is the only exception class the module defines;
  it carries its message. \<open>HttpError\<close> is \<^verbatim>\<open>googleapiclient.errors.HttpError\<close> with
  the status of its response. The others are the built-in exceptions of Python that the
  code can run into: a missing dictionary key, \<^verbatim>\<open>None.group\<close>, a malformed or
  unsatisfiable format string, and a local variable read before its assignment.
\<close>

datatype error =
    OrchestrateInstanceCreationError string
  | HttpError nat
  | KeyError string
  | AttributeError
  | ValueError
  | IndexError
  | UnboundLocalError

text \<open>The errors of the module's own class, as opposed to those of the runtime and the client.\<close>

definition is_domain_error :: "error \<Rightarrow> bool" where
  "is_domain_error e = (case e of OrchestrateInstanceCreationError m \<Rightarrow> True | _ \<Rightarrow> False)"

definition bindE :: "error + 'a \<Rightarrow> ('a \<Rightarrow> error + 'b) \<Rightarrow> error + 'b" where
  "bindE m f = (case m of Inl e \<Rightarrow> Inl e | Inr x \<Rightarrow> f x)"

subsection \<open>Data model\<close>

text \<open>
  A metadata item \<^verbatim>\<open>{'key': k, 'value': v}\<close> is the pair \<open>(k, v)\<close>. The
  dictionaries returned by the Compute Engine API are records. A key that the code reads
  with \<^verbatim>\<open>in\<close> or \<^verbatim>\<open>.get\<close>, and the keys \<^verbatim>\<open>disks\<close>, \<^verbatim>\<open>networkInterfaces\<close>,
  \<^verbatim>\<open>metadata\<close>, \<^verbatim>\<open>items\<close>, \<^verbatim>\<open>family\<close>, \<^verbatim>\<open>sourceImage\<close> and \<^verbatim>\<open>diskType\<close>, are
  optional fields: \<open>None\<close> is the absent key, and indexing it raises \<open>KeyError\<close>.
  The keys that the API gives every such dictionary (\<^verbatim>\<open>properties\<close>, \<^verbatim>\<open>boot\<close>,
  \<^verbatim>\<open>initializeParams\<close>, \<^verbatim>\<open>acceleratorType\<close>, \<^verbatim>\<open>selfLink\<close>, the \<^verbatim>\<open>name\<close> of an
  operation) are plain fields. The fields of the request are those of the protocol
  buffer message, where an unset string is the empty string.
  The values that the code copies without looking inside (tags, labels, scheduling, ...)
  have the type parameter \<open>'j\<close>.
\<close>

type_synonym item = "string \<times> string"

record instance_params =
  project :: string
  zone :: string
  template :: string
  instance_size :: string
  instance_name :: string
  instance_metadata :: "item list"
  use_latest_image :: bool

record initialize_params =
  sourceImage :: "string option"
  diskType :: "string option"

record disk =
  boot :: bool
  initializeParams :: initialize_params

record network_interface =
  network :: "string option"
  subnetwork :: "string option"

record accelerator =
  acceleratorType :: string
  acceleratorCount :: nat

record metadata =
  items :: "item list option"

record 'j properties =
  machineType :: "string option"
  tags :: "'j option"
  canIpForward :: "'j option"
  networkInterfaces :: "network_interface list option"
  labels :: "'j option"
  scheduling :: "'j option"
  deletionProtection :: "'j option"
  serviceAccounts :: "'j option"
  guestAccelerators :: "accelerator list option"
  disks :: "disk list option"
  metadata :: "metadata option"

record 'j instance_template =
  template_name :: string
  template_properties :: "'j properties"

record image =
  selfLink :: string
  family :: "string option"
  image_labels :: "(string \<rightharpoonup> string) option"

text \<open>
  The payload of \<^verbatim>\<open>instances.insert\<close>: its name, its description, and under
  \<open>body\<close> the keys transferred from the template's properties together with the
  \<^verbatim>\<open>metadata\<close> key that the code sets last.
\<close>

record 'j payload =
  payload_name :: string
  description :: string
  body :: "'j properties"

record operation =
  operation_name :: string

record 'j compute =
  instanceTemplates_get :: "string \<Rightarrow> string \<Rightarrow> error + 'j instance_template"
  instanceTemplates_list :: "string \<Rightarrow> string \<Rightarrow> error + 'j instance_template list option"
  images_get :: "string \<Rightarrow> string \<Rightarrow> error + image"
  images_getFromFamily :: "string \<Rightarrow> string \<Rightarrow> error + image"
  instances_insert :: "string \<Rightarrow> string \<Rightarrow> 'j payload \<Rightarrow> error + operation"

subsection \<open>Metadata splitting\<close>

text \<open>
  The loop of \<^verbatim>\<open>get_metadata\<close> over the template's items, with the list and the
  dictionary it fills as accumulator. An item whose key starts with
  \<^verbatim>\<open>orchestrate_\<close> is stored in the dictionary under \<^verbatim>\<open>item['key'][8:]\<close>.
\<close>

fun split_items :: "item list \<Rightarrow> item list \<times> (string \<rightharpoonup> string) \<Rightarrow> item list \<times> (string \<rightharpoonup> string)" where
  "split_items [] acc = acc"
| "split_items (it # rest) (im, om) =
     (if prefix ''orchestrate_'' (fst it)
      then split_items rest (im, om(drop 8 (fst it) \<mapsto> snd it))
      else split_items rest (im @ [it], om))"

definition template_items :: "'j instance_template \<Rightarrow> error + item list" where
  "template_items t =
     (case metadata (template_properties t) of
        None \<Rightarrow> Inl (KeyError ''metadata'')
      | Some md \<Rightarrow>
          (case items md of
             None \<Rightarrow> Inl (KeyError ''items'')
           | Some its \<Rightarrow> Inr its))"

definition get_metadata ::
  "instance_params \<Rightarrow> 'j instance_template \<Rightarrow> error + (item list \<times> (string \<rightharpoonup> string))" where
  "get_metadata inst t =
     bindE (template_items t) (\<lambda>its.
       let (im, om) = split_items its ([], Map.empty)
       in Inr (im @ instance_metadata inst, om))"

subsection \<open>Strings\<close>

text \<open>
  \<^verbatim>\<open>s.split(sep)\<close> for a one-character separator (the result is never empty),
  and \<^verbatim>\<open>sep.join(ws)\<close>. \<^verbatim>\<open>s.lower()\<close> follows the Unicode tables of the runtime:
  the operations that call it take it as the parameter \<open>lower\<close>. \<open>ascii_lower\<close> is
  what it does to a string of ASCII characters, for the concrete inputs.
\<close>

fun split_on :: "char \<Rightarrow> string \<Rightarrow> string list" where
  "split_on sep [] = [[]]"
| "split_on sep (c # cs) =
     (if c = sep then [] # split_on sep cs
      else (case split_on sep cs of
              [] \<Rightarrow> [[c]]
            | w # ws \<Rightarrow> (c # w) # ws))"

fun join :: "string \<Rightarrow> string list \<Rightarrow> string" where
  "join sep [] = []"
| "join sep [w] = w"
| "join sep (w # v # ws) = w @ sep @ join sep (v # ws)"

definition lower_char :: "char \<Rightarrow> char" where
  "lower_char c =
     (case map_of (zip ''ABCDEFGHIJKLMNOPQRSTUVWXYZ'' ''abcdefghijklmnopqrstuvwxyz'') c of
        None \<Rightarrow> c
      | Some l \<Rightarrow> l)"

definition ascii_lower :: "string \<Rightarrow> string" where
  "ascii_lower s = map lower_char s"

text \<open>The region of a zone: \<^verbatim>\<open>'-'.join(zone.split('-')[:2])\<close>.\<close>

definition region_of :: "string \<Rightarrow> string" where
  "region_of z = join ''-'' (take 2 (split_on CHR ''-'' z))"

subsection \<open>The format strings of Python\<close>

text \<open>
  \<^verbatim>\<open>pattern.format(**kw)\<close> with keyword arguments only, all of them already
  strings. The pattern is read from the left. Outside a field, \<^verbatim>\<open>{{\<close> and
  \<^verbatim>\<open>}}\<close> stand for one brace, a lone \<^verbatim>\<open>}\<close> and a \<^verbatim>\<open>{\<close> at the end raise
  \<open>ValueError\<close>. A field \<^verbatim>\<open>{name}\<close> whose name is a key of \<open>kw\<close> is replaced
  by the value; an empty name asks for a positional argument, and there is none
  (\<open>IndexError\<close>); any other plain name raises \<open>KeyError\<close>; a field that never
  closes raises \<open>ValueError\<close>. The result is \<open>None\<close> when the pattern leaves this
  fragment before an error was raised: a field with a conversion, a format
  specification, an attribute or an index (one of \<^verbatim>\<open>! : . [\<close>), a brace inside a
  field, or a name made of digits only.
\<close>

definition field_char :: "char \<Rightarrow> bool" where
  "field_char c \<longleftrightarrow> c \<notin> set ''{}[]:!.''"

definition emit :: "string \<Rightarrow> (error + string) option \<Rightarrow> (error + string) option" where
  "emit s r = (case r of
                 None \<Rightarrow> None
               | Some (Inl e) \<Rightarrow> Some (Inl e)
               | Some (Inr t) \<Rightarrow> Some (Inr (s @ t)))"

definition digits_only :: "string \<Rightarrow> bool" where
  "digits_only s \<longleftrightarrow> list_all (\<lambda>c. c \<in> set ''0123456789'') s"

function format_fields :: "(string \<rightharpoonup> string) \<Rightarrow> string \<Rightarrow> (error + string) option" where
  "format_fields kw [] = Some (Inr [])"
| "format_fields kw (c # cs) =
     (if c = CHR ''}'' then
        (case cs of
           [] \<Rightarrow> Some (Inl ValueError)
         | d # ds \<Rightarrow> if d = CHR ''}'' then emit ''}'' (format_fields kw ds)
                    else Some (Inl ValueError))
      else if c = CHR ''{'' then
        (case cs of
           [] \<Rightarrow> Some (Inl ValueError)
         | d # ds \<Rightarrow>
             if d = CHR ''{'' then emit ''{'' (format_fields kw ds)
             else (case dropWhile field_char cs of
                     [] \<Rightarrow> Some (Inl ValueError)
                   | t # rest \<Rightarrow>
                       if t \<noteq> CHR ''}'' then None
                       else if takeWhile field_char cs = [] then Some (Inl IndexError)
                       else if digits_only (takeWhile field_char cs) then None
                       else (case kw (takeWhile field_char cs) of
                               None \<Rightarrow> Some (Inl (KeyError (takeWhile field_char cs)))
                             | Some v \<Rightarrow> emit v (format_fields kw rest))))
      else emit [c] (format_fields kw cs))"
  by pat_completeness auto
termination
proof (relation "measure (\<lambda>(kw, s). length s)")
  show "wf (measure (\<lambda>(kw, s). length s))" by simp
next
  fix kw :: "string \<rightharpoonup> string" and c :: char and cs :: string and d :: char and ds :: string
  assume "cs = d # ds"
  then show "((kw, ds), kw, c # cs) \<in> measure (\<lambda>(kw, s). length s)" by simp
next
  fix kw :: "string \<rightharpoonup> string" and c :: char and cs :: string and d :: char and ds :: string
  assume "cs = d # ds"
  then show "((kw, ds), kw, c # cs) \<in> measure (\<lambda>(kw, s). length s)" by simp
next
  fix kw :: "string \<rightharpoonup> string" and c :: char and cs :: string and t :: char and rest :: string
  assume "dropWhile field_char cs = t # rest"
  then have "length (t # rest) \<le> length cs"
    by (metis length_dropWhile_le)
  then show "((kw, rest), kw, c # cs) \<in> measure (\<lambda>(kw, s). length s)" by simp
next
  fix kw :: "string \<rightharpoonup> string" and c :: char and cs :: string
  show "((kw, cs), kw, c # cs) \<in> measure (\<lambda>(kw, s). length s)" by simp
qed

text \<open>
  \<open>ext\<close> is \<^verbatim>\<open>str.format\<close> itself on the patterns outside the fragment above.
\<close>

definition format_str ::
  "(string \<Rightarrow> (string \<rightharpoonup> string) \<Rightarrow> error + string) \<Rightarrow> string \<Rightarrow> (string \<rightharpoonup> string) \<Rightarrow> error + string" where
  "format_str ext pattern kw =
     (case format_fields kw pattern of None \<Rightarrow> ext pattern kw | Some r \<Rightarrow> r)"

subsection \<open>Instance names\<close>

text \<open>
  The keyword arguments that \<^verbatim>\<open>build_name\<close> passes to \<^verbatim>\<open>format\<close>, as the
  strings that \<^verbatim>\<open>format\<close> prints for them (\<^verbatim>\<open>gpu_count\<close> is the integer 0 when
  the dictionary has no such key). \<open>unique_id\<close> is \<^verbatim>\<open>uuid.uuid4().hex[:5]\<close>.
\<close>

definition name_kwargs :: "string \<Rightarrow> instance_params \<Rightarrow> (string \<rightharpoonup> string) \<Rightarrow> (string \<rightharpoonup> string)" where
  "name_kwargs unique_id inst om =
     (let gpu_count = (case om ''gpu_count'' of None \<Rightarrow> ''0'' | Some n \<Rightarrow> n);
          gpu_type = (case om ''gpu_type'' of None \<Rightarrow> [] | Some g \<Rightarrow> g);
          graphics_type = (if suffix ''-vws'' gpu_type then ''vws'' else ''gpu'');
          gpu_name = (if \<not> suffix ''-vws'' gpu_type then gpu_type
                      else take (length gpu_type - 4) gpu_type)
      in [''template'' \<mapsto> template inst,
          ''size'' \<mapsto> instance_size inst,
          ''region'' \<mapsto> region_of (zone inst),
          ''zone'' \<mapsto> zone inst,
          ''type'' \<mapsto> graphics_type,
          ''gpu_name'' \<mapsto> gpu_name,
          ''gpu_count'' \<mapsto> gpu_count,
          ''gpu_type'' \<mapsto> gpu_type,
          ''user'' \<mapsto> unique_id,
          ''id'' \<mapsto> unique_id])"

text \<open>
  \<^verbatim>\<open>instance.name or instance_name_pattern or default_pattern\<close>: an empty string and
  \<^verbatim>\<open>None\<close> are both false. \<open>uuid_hex\<close> is the value of \<^verbatim>\<open>uuid.uuid4().hex\<close>.
\<close>

definition default_pattern :: string where
  "default_pattern = ''{template}-{size}-{id}''"

definition name_pattern :: "instance_params \<Rightarrow> (string \<rightharpoonup> string) \<Rightarrow> string" where
  "name_pattern inst om =
     (if instance_name inst \<noteq> [] then instance_name inst
      else (case om ''instance_name_pattern'' of
              None \<Rightarrow> default_pattern
            | Some p \<Rightarrow> if p \<noteq> [] then p else default_pattern))"

definition build_name ::
  "(string \<Rightarrow> (string \<rightharpoonup> string) \<Rightarrow> error + string) \<Rightarrow> string \<Rightarrow> instance_params \<Rightarrow>
   (string \<rightharpoonup> string) \<Rightarrow> error + string" where
  "build_name ext uuid_hex inst om =
     format_str ext (name_pattern inst om) (name_kwargs (take 5 uuid_hex) inst om)"

subsection \<open>Boot images\<close>

text \<open>
  \<^verbatim>\<open>re.match\<close> with the pattern
  \<^verbatim>\<open>.*/projects/(?P<project>.*)/global/images/(?P<version>.*)\<close>, as the backtracking
  matcher runs it. \<open>dot_star k s\<close> is a greedy \<^verbatim>\<open>.*\<close> followed by the rest of the
  pattern \<open>k\<close>: it takes the longest run of characters other than a newline after which
  \<open>k\<close> matches, and returns that run with the result of \<open>k\<close>. \<open>lit l k\<close> is the
  literal \<open>l\<close> followed by \<open>k\<close>. The match starts at the first character and need
  not reach the end of the string.
\<close>

fun dot_star :: "(string \<Rightarrow> 'a option) \<Rightarrow> string \<Rightarrow> (string \<times> 'a) option" where
  "dot_star k [] = map_option (Pair []) (k [])"
| "dot_star k (c # cs) =
     (if c = CHR 0x0A then map_option (Pair []) (k (c # cs))
      else (case dot_star k cs of
              Some (p, r) \<Rightarrow> Some (c # p, r)
            | None \<Rightarrow> map_option (Pair []) (k (c # cs))))"

definition lit :: "string \<Rightarrow> (string \<Rightarrow> 'a option) \<Rightarrow> string \<Rightarrow> 'a option" where
  "lit l k s = (if prefix l s then k (drop (length l) s) else None)"

definition match_source_image :: "string \<Rightarrow> (string \<times> string) option" where
  "match_source_image link =
     (case dot_star (lit ''/projects/''
             (dot_star (lit ''/global/images/''
               (dot_star (\<lambda>rest. Some ()))))) link of
        None \<Rightarrow> None
      | Some (before, proj, version, u) \<Rightarrow> Some (proj, version))"

text \<open>The part of a string that \<^verbatim>\<open>.\<close> can match from its start: up to the first newline.\<close>

definition first_line :: "string \<Rightarrow> string" where
  "first_line s = takeWhile (\<lambda>c. c \<noteq> CHR 0x0A) s"

definition get_images :: "'j compute \<Rightarrow> initialize_params \<Rightarrow> error + (image \<times> image)" where
  "get_images c parameters =
     (case sourceImage parameters of
        None \<Rightarrow> Inl (KeyError ''sourceImage'')
      | Some link \<Rightarrow>
          (case match_source_image link of
             None \<Rightarrow> Inl AttributeError
           | Some (proj, version) \<Rightarrow>
               bindE (images_get c proj version) (\<lambda>img.
                 case family img of
                   None \<Rightarrow> Inl (KeyError ''family'')
                 | Some fam \<Rightarrow>
                     bindE (images_getFromFamily c proj fam) (\<lambda>latest.
                       Inr (img, latest)))))"

fun get_boot_images :: "'j compute \<Rightarrow> disk list \<Rightarrow> error + (image \<times> image)" where
  "get_boot_images c [] = Inl (OrchestrateInstanceCreationError ''Template has no boot disk.'')"
| "get_boot_images c (d # ds) =
     (if boot d then get_images c (initializeParams d) else get_boot_images c ds)"

subsection \<open>Locating the template\<close>

text \<open>
  The scan of \<^verbatim>\<open>get_template\<close> over the listed templates: the first one that has
  the item \<^verbatim>\<open>orchestrate_default_size\<close> with the value \<^verbatim>\<open>true\<close>.
\<close>

fun default_size_template :: "'j instance_template list \<Rightarrow> error + 'j instance_template option" where
  "default_size_template [] = Inr None"
| "default_size_template (t # ts) =
     bindE (template_items t) (\<lambda>its.
       if (''orchestrate_default_size'', ''true'') \<in> set its then Inr (Some t)
       else default_size_template ts)"

definition get_template :: "'j compute \<Rightarrow> instance_params \<Rightarrow> error + 'j instance_template" where
  "get_template c inst =
     (if instance_size inst = [] then
        bindE (instanceTemplates_list c (project inst)
                 (''name = '' @ [CHR 0x22] @ template inst @ ''-*'' @ [CHR 0x22])) (\<lambda>response.
          bindE (default_size_template (case response of None \<Rightarrow> [] | Some ts \<Rightarrow> ts)) (\<lambda>found.
            case found of
              Some t \<Rightarrow> Inr t
            | None \<Rightarrow> Inl (OrchestrateInstanceCreationError
                 (''Could not locate default size for project '' @ project inst @ '' template ''
                  @ template inst @ ''. Please specify an explicit size in the request.''))))
      else instanceTemplates_get c (project inst) (template inst @ ''-'' @ instance_size inst))"

subsection \<open>Operating system and startup script\<close>

definition linux_families :: "string list" where
  "linux_families = [''centos'', ''debian'', ''rhel'', ''sles'', ''cos'', ''coreos'', ''ubuntu'']"

definition unknown_os_message :: "string \<Rightarrow> string" where
  "unknown_os_message link =
     ''Image '' @ link @ '' does not have a orchestrate_os label. And, could not guess the''
     @ '' OS from the family name based on GCP image family naming conventions,''
     @ '' e.g. windows-, centos-, etc. Please add a orchestrate_os label and set it''
     @ '' to either '' @ [CHR 0x22] @ ''linux'' @ [CHR 0x22] @ '' or '' @ [CHR 0x22] @ ''windows''
     @ [CHR 0x22] @ '' to indicate the base OS for this image.''
     @ '' Or, rename the image family to include a prefix with the base OS name.''"

text \<open>
  \<open>explicit_os_label\<close> is \<^verbatim>\<open>image.get('labels', dict()).get('orchestrate_os')\<close>.
  \<open>os_label\<close> is that value with the empty string for \<^verbatim>\<open>None\<close>: the code only
  tests it for truth, and neither \<^verbatim>\<open>None\<close> nor the empty string is true.
\<close>

definition explicit_os_label :: "image \<Rightarrow> string option" where
  "explicit_os_label img =
     (case image_labels img of
        None \<Rightarrow> None
      | Some ls \<Rightarrow> ls ''orchestrate_os'')"

definition os_label :: "image \<Rightarrow> string" where
  "os_label img = (case explicit_os_label img of None \<Rightarrow> [] | Some l \<Rightarrow> l)"

definition get_os_type :: "(string \<Rightarrow> string) \<Rightarrow> image \<Rightarrow> error + string" where
  "get_os_type lower img =
     (if os_label img \<noteq> [] then Inr (lower (os_label img))
      else (case family img of
              None \<Rightarrow> Inl (KeyError ''family'')
            | Some f \<Rightarrow>
                (case split_on CHR ''-'' f of
                   [] \<Rightarrow> Inl IndexError
                 | fam # others \<Rightarrow>
                     if fam = ''windows'' then Inr ''windows''
                     else if fam \<in> set linux_families then Inr ''linux''
                     else Inl (OrchestrateInstanceCreationError (unknown_os_message (selfLink img))))))"

text \<open>\<open>bucket\<close> is \<^verbatim>\<open>environ.ORCHESTRATE_BUCKET\<close>.\<close>

definition set_startup_script ::
  "(string \<Rightarrow> string) \<Rightarrow> string \<Rightarrow> item list \<Rightarrow> image \<Rightarrow> error + item list" where
  "set_startup_script lower bucket md img =
     bindE (get_os_type lower img) (\<lambda>os_type.
       if os_type = ''linux'' then
         Inr (md @ [(''startup-script-url'', ''gs://'' @ bucket @ ''/remotedesktopconfigure.py'')])
       else if os_type = ''windows'' then
         Inr (md @ [(''windows-startup-script-url'', ''gs://'' @ bucket @ ''/remotedesktopconfigure.ps1'')])
       else Inr md)"

subsection \<open>The payload\<close>

definition machine_type_url :: "string \<Rightarrow> (string \<rightharpoonup> string) \<Rightarrow> string" where
  "machine_type_url zone_url om =
     zone_url @ ''/machineTypes/''
     @ (case om ''machine_type'' of None \<Rightarrow> ''n1-standard-8'' | Some m \<Rightarrow> m)"

definition expand_accelerator :: "string \<Rightarrow> accelerator \<Rightarrow> accelerator" where
  "expand_accelerator zone_url a =
     a\<lparr>acceleratorType := zone_url @ ''/acceleratorTypes/'' @ acceleratorType a\<rparr>"

text \<open>The loop over \<^verbatim>\<open>payload['disks']\<close>; it stops at the first disk without a disk type.\<close>

fun expand_disks :: "string \<Rightarrow> bool \<Rightarrow> image \<Rightarrow> disk list \<Rightarrow> error + disk list" where
  "expand_disks zone_url use_latest latest [] = Inr []"
| "expand_disks zone_url use_latest latest (d # ds) =
     (case diskType (initializeParams d) of
        None \<Rightarrow> Inl (KeyError ''diskType'')
      | Some disk_type \<Rightarrow>
          (let parameters = (initializeParams d)\<lparr>diskType := Some (zone_url @ ''/diskTypes/'' @ disk_type)\<rparr>;
               parameters' = (if boot d \<and> use_latest
                              then parameters\<lparr>sourceImage := Some (selfLink latest)\<rparr>
                              else parameters)
           in bindE (expand_disks zone_url use_latest latest ds) (\<lambda>ds'.
                Inr (d\<lparr>initializeParams := parameters'\<rparr> # ds'))))"

definition expand_interface :: "string \<Rightarrow> (string \<rightharpoonup> string) \<Rightarrow> network_interface \<Rightarrow> network_interface" where
  "expand_interface region_url om ni =
     (let net = (case om ''network'' of None \<Rightarrow> ''default'' | Some n \<Rightarrow> n)
      in ni\<lparr>network := Some (''global/networks/'' @ net),
            subnetwork := Some (region_url @ ''/subnetworks/'' @ net)\<rparr>)"

text \<open>
  \<open>assemble_payload\<close> is \<^verbatim>\<open>build_instance_payload\<close> from the line that computes
  the region to its end, in the order of the source: the boot images, the transferred
  keys (every key of \<open>properties\<close> but \<^verbatim>\<open>metadata\<close>), the machine type, the
  accelerators, the disks, the network interfaces, the startup script and the metadata.
  Its arguments are the values that the first three lines of the function have bound.
\<close>

definition region_url :: "instance_params \<Rightarrow> string" where
  "region_url inst = ''projects/'' @ project inst @ ''/regions/'' @ region_of (zone inst)"

definition zone_url :: "instance_params \<Rightarrow> string" where
  "zone_url inst = ''projects/'' @ project inst @ ''/zones/'' @ zone inst"

definition assemble_payload ::
  "(string \<Rightarrow> string) \<Rightarrow>
   'j compute \<Rightarrow> string \<Rightarrow> instance_params \<Rightarrow> 'j instance_template \<Rightarrow> item list \<Rightarrow>
   (string \<rightharpoonup> string) \<Rightarrow> string \<Rightarrow> error + 'j payload" where
  "assemble_payload lower c bucket inst t instance_md orchestrate_md name =
     (let props = template_properties t
      in case disks props of
           None \<Rightarrow> Inl (KeyError ''disks'')
         | Some ds \<Rightarrow>
     bindE (get_boot_images c ds) (\<lambda>(boot_image, boot_image_latest).
       let transferred = props\<lparr>metadata := None\<rparr>;
           with_machine = transferred\<lparr>machineType := Some (machine_type_url (zone_url inst) orchestrate_md)\<rparr>;
           with_gpus = with_machine\<lparr>guestAccelerators :=
                         map_option (map (expand_accelerator (zone_url inst))) (guestAccelerators with_machine)\<rparr>
       in
     bindE (expand_disks (zone_url inst) (use_latest_image inst) boot_image_latest ds) (\<lambda>ds'.
       case networkInterfaces with_gpus of
         None \<Rightarrow> Inl (KeyError ''networkInterfaces'')
       | Some nis \<Rightarrow>
     bindE (set_startup_script lower bucket instance_md
              (if use_latest_image inst then boot_image_latest else boot_image)) (\<lambda>md.
       Inr \<lparr>payload_name = name,
            description = ''Orchestrate instance created from template '' @ template inst
                          @ '' size '' @ instance_size inst,
            body = with_gpus\<lparr>disks := Some ds',
                             networkInterfaces := Some (map (expand_interface (region_url inst) orchestrate_md) nis),
                             metadata := Some \<lparr>items = Some md\<rparr>\<rparr>\<rparr>))))"

definition build_instance_payload ::
  "(string \<Rightarrow> string) \<Rightarrow>
   'j compute \<Rightarrow> string \<Rightarrow> (string \<Rightarrow> (string \<rightharpoonup> string) \<Rightarrow> error + string) \<Rightarrow> string \<Rightarrow>
   instance_params \<Rightarrow> error + 'j payload" where
  "build_instance_payload lower c bucket ext uuid_hex inst =
     bindE (get_template c inst) (\<lambda>t.
     bindE (get_metadata inst t) (\<lambda>(instance_md, orchestrate_md).
     bindE (build_name ext uuid_hex inst orchestrate_md) (\<lambda>name.
       assemble_payload lower c bucket inst t instance_md orchestrate_md name)))"

subsection \<open>The request\<close>

record response =
  status :: string
  request_id :: string
  response_name :: string

text \<open>
  The \<^verbatim>\<open>except errors.HttpError\<close> clause of \<^verbatim>\<open>run\<close>. Its message reads
  \<^verbatim>\<open>payload['name']\<close>; \<open>None\<close> is the local variable \<^verbatim>\<open>payload\<close> not yet assigned,
  when the exception comes out of \<^verbatim>\<open>build_instance_payload\<close>.
\<close>

definition on_error :: "'j payload option \<Rightarrow> error \<Rightarrow> error" where
  "on_error assigned e =
     (case e of
        HttpError st \<Rightarrow>
          if st = 409 then
            (case assigned of
               None \<Rightarrow> UnboundLocalError
             | Some p \<Rightarrow> OrchestrateInstanceCreationError
                 (''An instance with name '' @ payload_name p @ '' already exists.''))
          else e
      | _ \<Rightarrow> e)"

text \<open>
  \<open>request_uuid\<close> and \<open>name_uuid\<close> are the two values of \<^verbatim>\<open>uuid.uuid4().hex\<close>,
  the first drawn by \<^verbatim>\<open>run\<close>, the second by \<^verbatim>\<open>build_name\<close>.
\<close>

definition run ::
  "(string \<Rightarrow> string) \<Rightarrow>
   'j compute \<Rightarrow> string \<Rightarrow> (string \<Rightarrow> (string \<rightharpoonup> string) \<Rightarrow> error + string) \<Rightarrow> string \<Rightarrow> string \<Rightarrow>
   instance_params \<Rightarrow> error + response" where
  "run lower c bucket ext request_uuid name_uuid inst =
     (case build_instance_payload lower c bucket ext name_uuid inst of
        Inl e \<Rightarrow> Inl (on_error (None :: 'j payload option) e)
      | Inr p \<Rightarrow>
          (case instances_insert c (project inst) (zone inst) p of
             Inl e \<Rightarrow> Inl (on_error (Some p) e)
           | Inr started \<Rightarrow>
               Inr \<lparr>status = ''SUBMITTED'', request_id = request_uuid,
                    response_name = payload_name p\<rparr>))"

subsection \<open>Concrete inputs\<close>

text \<open>
  A request for size 8 of the template family \<^verbatim>\<open>render\<close>, a Compute Engine client
  that knows one template, one image and its family, and variations of them.
\<close>

definition request :: instance_params where
  "request = \<lparr>project = ''studio'', zone = ''us-central1-a'', template = ''render'',
      instance_size = ''8'', instance_name = [], instance_metadata = [(''owner'', ''ada'')],
      use_latest_image = False\<rparr>"

definition boot_disk :: disk where
  "boot_disk = \<lparr>boot = True, initializeParams =
      \<lparr>sourceImage = Some ''https://www.googleapis.com/compute/v1/projects/media/global/images/visual-v1'',
       diskType = Some ''pd-ssd''\<rparr>\<rparr>"

definition data_disk :: disk where
  "data_disk = \<lparr>boot = False, initializeParams =
      \<lparr>sourceImage = Some ''projects/media/global/images/assets-v3'', diskType = Some ''pd-standard''\<rparr>\<rparr>"

definition tools_disk :: disk where
  "tools_disk = \<lparr>boot = True, initializeParams =
      \<lparr>sourceImage = Some ''https://www.googleapis.com/compute/v1/projects/media/global/images/tools-v5'',
       diskType = Some ''pd-ssd''\<rparr>\<rparr>"

definition bare_disk :: disk where
  "bare_disk = \<lparr>boot = True, initializeParams =
      \<lparr>sourceImage = Some ''global/images/visual-v1'', diskType = Some ''pd-ssd''\<rparr>\<rparr>"

definition render_properties :: "unit properties" where
  "render_properties = \<lparr>machineType = Some ''n1-highmem-4'', tags = None, canIpForward = None,
      networkInterfaces = Some [\<lparr>network = None, subnetwork = None\<rparr>], labels = None,
      scheduling = None, deletionProtection = None, serviceAccounts = None,
      guestAccelerators = None, disks = Some [data_disk, boot_disk],
      metadata = Some \<lparr>items = Some [(''enable-oslogin'', ''TRUE'')]\<rparr>\<rparr>"

definition render_template :: "unit instance_template" where
  "render_template = \<lparr>template_name = ''render-8'', template_properties = render_properties\<rparr>"

definition visual_v1 :: image where
  "visual_v1 = \<lparr>selfLink = ''https://www.googleapis.com/compute/v1/projects/media/global/images/visual-v1'',
      family = Some ''centos-7'', image_labels = None\<rparr>"

definition visual_v2 :: image where
  "visual_v2 = \<lparr>selfLink = ''https://www.googleapis.com/compute/v1/projects/media/global/images/visual-v2'',
      family = Some ''centos-7'', image_labels = None\<rparr>"

definition cloud :: "unit instance_template \<Rightarrow> image \<Rightarrow> error + operation \<Rightarrow> unit compute" where
  "cloud t img inserted =
     \<lparr>instanceTemplates_get = (\<lambda>p n. if p = ''studio'' \<and> n = ''render-8'' then Inr t else Inl (HttpError 404)),
      instanceTemplates_list = (\<lambda>p f. Inr None),
      images_get = (\<lambda>p v. if p = ''media'' \<and> v = ''visual-v1'' then Inr img else Inl (HttpError 404)),
      images_getFromFamily = (\<lambda>p f. if p = ''media'' \<and> f = ''centos-7'' then Inr visual_v2 else Inl (HttpError 404)),
      instances_insert = (\<lambda>p z body. inserted)\<rparr>"

definition no_ext :: "string \<Rightarrow> (string \<rightharpoonup> string) \<Rightarrow> error + string" where
  "no_ext pattern kw = Inl ValueError"

definition labelled_image :: "string \<Rightarrow> image" where
  "labelled_image l = visual_v1\<lparr>image_labels := Some [''orchestrate_os'' \<mapsto> l]\<rparr>"

definition family_image :: "string \<Rightarrow> image" where
  "family_image f = visual_v1\<lparr>family := Some f\<rparr>"

definition with_properties :: "(unit properties \<Rightarrow> unit properties) \<Rightarrow> unit instance_template" where
  "with_properties change = render_template\<lparr>template_properties := change render_properties\<rparr>"

definition conflicting_lookup :: "unit compute" where
  "conflicting_lookup =
     (cloud render_template visual_v1 (Inr \<lparr>operation_name = ''operation-1''\<rparr>))
       \<lparr>instanceTemplates_get := (\<lambda>p n. Inl (HttpError 409))\<rparr>"

definition override_template :: "unit instance_template" where
  "override_template = render_template\<lparr>template_properties :=
      render_properties\<lparr>metadata := Some \<lparr>items = Some
        [(''orchestrate_machine_type'', ''n1-highmem-4''), (''enable-oslogin'', ''TRUE'')]\<rparr>\<rparr>\<rparr>"

section \<open>Properties\<close>

subsection \<open>Sequencing of failures\<close>

lemma bindE_Inl [simp]: "bindE (Inl e) f = Inl e"
  by (simp add: bindE_def)

lemma bindE_Inr [simp]: "bindE (Inr x) f = f x"
  by (simp add: bindE_def)

lemma bindE_eq_Inr: "bindE m f = Inr y \<longleftrightarrow> (\<exists>x. m = Inr x \<and> f x = Inr y)"
  by (cases m) simp_all

subsection \<open>Metadata splitting\<close>

lemma split_items_fst:
  "fst (split_items its (im, om)) = im @ filter (\<lambda>it. \<not> prefix ''orchestrate_'' (fst it)) its"
  by (induction its arbitrary: im om) simp_all

lemma split_items_snd:
  "snd (split_items its (im, om)) k = Some v \<Longrightarrow>
   om k = Some v \<or> (\<exists>it \<in> set its. prefix ''orchestrate_'' (fst it) \<and> k = drop 8 (fst it))"
proof (induction its arbitrary: im om)
  case Nil
  then show ?case by simp
next
  case (Cons it its)
  show ?case
  proof (cases "prefix ''orchestrate_'' (fst it)")
    case True
    with Cons.prems have "snd (split_items its (im, om(drop 8 (fst it) \<mapsto> snd it))) k = Some v"
      by simp
    from Cons.IH [OF this] True show ?thesis
      by (auto split: if_splits)
  next
    case False
    with Cons.prems have "snd (split_items its (im @ [it], om)) k = Some v"
      by simp
    from Cons.IH [OF this] show ?thesis
      by auto
  qed
qed

lemma get_metadata_Inr:
  "get_metadata inst t = Inr (im, om) \<longleftrightarrow>
   (\<exists>its. template_items t = Inr its
      \<and> im = fst (split_items its ([], Map.empty)) @ instance_metadata inst
      \<and> om = snd (split_items its ([], Map.empty)))"
  by (cases "template_items t") (auto simp: get_metadata_def case_prod_beta)

text \<open>
  What is left of the prefix: a key of the dictionary that \<^verbatim>\<open>get_metadata\<close> returns
  starts with \<^verbatim>\<open>ate_\<close>, the last four characters of \<^verbatim>\<open>orchestrate_\<close>.
\<close>

lemma stored_key_starts_ate:
  assumes "prefix ''orchestrate_'' k"
  shows "prefix ''ate_'' (drop 8 k)"
proof -
  from assms obtain r where "k = ''orchestrate_'' @ r"
    by (auto simp: prefix_def)
  then show ?thesis by simp
qed

lemma get_metadata_keys:
  assumes "get_metadata inst t = Inr (im, om)" and "om k = Some v"
  shows "prefix ''ate_'' k"
proof -
  from assms(1) obtain its where "om = snd (split_items its ([], Map.empty))"
    by (auto simp: get_metadata_Inr)
  with assms(2) have "snd (split_items its ([], Map.empty)) k = Some v"
    by simp
  from split_items_snd [OF this] show ?thesis
    by (auto intro: stored_key_starts_ate)
qed

text \<open>
  Claim C1. The claim says that an item whose key carries the reserved prefix
  \<^verbatim>\<open>orchestrate_\<close> is stored under its key without the whole prefix. The code drops
  eight characters of a prefix of twelve: on a template with the items
  \<^verbatim>\<open>orchestrate_machine_type\<close> and \<^verbatim>\<open>enable-oslogin\<close> and a request with the item
  \<^verbatim>\<open>owner\<close>, the instance metadata are the two plain items in order, and the value of
  the prefixed item is stored under \<^verbatim>\<open>ate_machine_type\<close>, not under
  \<^verbatim>\<open>machine_type\<close>.
\<close>

theorem get_metadata_strips_eight_characters:
  "map_sum id (\<lambda>(im, om). (im, om ''ate_machine_type'', om ''machine_type''))
     (get_metadata request override_template)
   = Inr ([(''enable-oslogin'', ''TRUE''), (''owner'', ''ada'')], Some ''n1-highmem-4'', None)"
  by (simp add: get_metadata_def template_items_def override_template_def render_template_def
      render_properties_def request_def)

subsection \<open>Instance names\<close>

lemma emit_Inr [simp]: "emit s (Some (Inr t)) = Some (Inr (s @ t))"
  by (simp add: emit_def)

lemma format_fields_plain:
  "CHR ''{'' \<notin> set s \<Longrightarrow> CHR ''}'' \<notin> set s \<Longrightarrow> format_fields kw s = Some (Inr s)"
  by (induction s) auto

lemma format_str_plain:
  "CHR ''{'' \<notin> set s \<Longrightarrow> CHR ''}'' \<notin> set s \<Longrightarrow> format_str ext s kw = Inr s"
  by (simp add: format_str_def format_fields_plain)

lemma format_default_pattern:
  "format_str ext default_pattern (name_kwargs uid inst om)
   = Inr (template inst @ ''-'' @ instance_size inst @ ''-'' @ uid)"
  by (simp add: format_str_def default_pattern_def name_kwargs_def Let_def field_char_def
      digits_only_def)

text \<open>
  Claim C4, as the code has it. A name on the request that is not empty is the pattern
  that \<^verbatim>\<open>build_name\<close> formats, whatever the extended metadata hold, and the result
  is that name itself when it has no brace in it. When the request has no name (the
  empty string), the pattern is the value of \<^verbatim>\<open>instance_name_pattern\<close> in the
  extended metadata, if there is one and it is not empty. Otherwise the pattern is
  \<^verbatim>\<open>{template}-{size}-{id}\<close>, and the name is the template, the size and the first five
  characters of the random token, joined by hyphens.
\<close>

theorem build_name_precedence:
  "(instance_name inst \<noteq> [] \<longrightarrow>
      build_name ext u inst om
      = format_str ext (instance_name inst) (name_kwargs (take 5 u) inst om))
   \<and> (instance_name inst \<noteq> [] \<and> CHR ''{'' \<notin> set (instance_name inst)
        \<and> CHR ''}'' \<notin> set (instance_name inst) \<longrightarrow>
      build_name ext u inst om = Inr (instance_name inst))
   \<and> (instance_name inst = [] \<and> om ''instance_name_pattern'' = Some p \<and> p \<noteq> [] \<longrightarrow>
      build_name ext u inst om = format_str ext p (name_kwargs (take 5 u) inst om))
   \<and> (instance_name inst = [] \<and> om ''instance_name_pattern'' \<in> {None, Some []} \<longrightarrow>
      build_name ext u inst om
      = Inr (template inst @ ''-'' @ instance_size inst @ ''-'' @ take 5 u))"
  by (auto simp: build_name_def name_pattern_def format_str_plain format_default_pattern)

theorem build_name_precedence_witness:
  "build_name no_ext ''0123456789abcdef'' (request\<lparr>instance_name := ''ws-ada''\<rparr>)
     [''instance_name_pattern'' \<mapsto> ''{type}-{id}''] = Inr ''ws-ada''
   \<and> build_name no_ext ''0123456789abcdef'' request
       [''instance_name_pattern'' \<mapsto> ''{type}-{id}''] = Inr ''gpu-01234''
   \<and> build_name no_ext ''0123456789abcdef'' request Map.empty = Inr ''render-8-01234''"
  using
    build_name_precedence [of "request\<lparr>instance_name := ''ws-ada''\<rparr>" no_ext "''0123456789abcdef''"
      "[''instance_name_pattern'' \<mapsto> ''{type}-{id}'']" "''{type}-{id}''"]
    build_name_precedence [of request no_ext "''0123456789abcdef''"
      "[''instance_name_pattern'' \<mapsto> ''{type}-{id}'']" "''{type}-{id}''"]
    build_name_precedence [of request no_ext "''0123456789abcdef''" Map.empty "[]"]
  by (simp add: request_def format_str_def name_kwargs_def field_char_def digits_only_def
      suffix_to_prefix)

text \<open>
  The claim as it is written fails: the explicit name \<^verbatim>\<open>{zone}\<close> is not the name of
  the instance, the zone is.
\<close>

theorem explicit_name_is_formatted:
  "build_name no_ext ''0123456789abcdef'' (request\<lparr>instance_name := ''{zone}''\<rparr>) Map.empty
   = Inr ''us-central1-a''
   \<and> build_name no_ext ''0123456789abcdef'' (request\<lparr>instance_name := ''{zone}''\<rparr>) Map.empty
     \<noteq> Inr (instance_name (request\<lparr>instance_name := ''{zone}''\<rparr>))"
  by (simp add: build_name_def name_pattern_def request_def format_str_def name_kwargs_def
      field_char_def digits_only_def)

subsection \<open>Operating system and startup script\<close>

lemma split_on_first: "\<exists>ws. split_on sep s = takeWhile (\<lambda>c. c \<noteq> sep) s # ws"
  by (induction s) auto

text \<open>
  Claim C5, as the code has it. A label \<^verbatim>\<open>orchestrate_os\<close> that is not empty wins
  outright: the result is what \<^verbatim>\<open>str.lower\<close> makes of the label, whatever it is, for
  any function \<open>lower\<close> in the place of \<^verbatim>\<open>str.lower\<close>. Without such a
  label, for an image that has a family, the characters of the family before its first
  hyphen decide: \<^verbatim>\<open>windows\<close> gives \<^verbatim>\<open>windows\<close>, a name of the list of Linux
  distributions gives \<^verbatim>\<open>linux\<close>, and any other token fails with
  \<open>OrchestrateInstanceCreationError\<close> and the message that asks for a label.
\<close>

theorem get_os_type_cases:
  "(os_label img \<noteq> [] \<longrightarrow> get_os_type lower img = Inr (lower (os_label img)))
   \<and> (os_label img = [] \<and> family img = Some f
        \<and> takeWhile (\<lambda>c. c \<noteq> CHR ''-'') f = ''windows'' \<longrightarrow>
      get_os_type lower img = Inr ''windows'')
   \<and> (os_label img = [] \<and> family img = Some f
        \<and> takeWhile (\<lambda>c. c \<noteq> CHR ''-'') f \<in> set linux_families \<longrightarrow>
      get_os_type lower img = Inr ''linux'')
   \<and> (os_label img = [] \<and> family img = Some f
        \<and> takeWhile (\<lambda>c. c \<noteq> CHR ''-'') f \<noteq> ''windows''
        \<and> takeWhile (\<lambda>c. c \<noteq> CHR ''-'') f \<notin> set linux_families \<longrightarrow>
      get_os_type lower img = Inl (OrchestrateInstanceCreationError (unknown_os_message (selfLink img))))"
proof -
  obtain ws where "split_on CHR ''-'' f = takeWhile (\<lambda>c. c \<noteq> CHR ''-'') f # ws"
    using split_on_first by blast
  then show ?thesis
    by (auto simp: get_os_type_def linux_families_def)
qed

theorem get_os_type_cases_witness:
  "get_os_type ascii_lower (labelled_image ''Windows'') = Inr ''windows''
   \<and> get_os_type ascii_lower (family_image ''windows-2019'') = Inr ''windows''
   \<and> get_os_type ascii_lower (family_image ''centos-7'') = Inr ''linux''
   \<and> get_os_type ascii_lower (family_image ''acme-custom'')
     = Inl (OrchestrateInstanceCreationError (unknown_os_message (selfLink visual_v1)))"
  using get_os_type_cases [of "labelled_image ''Windows''" ascii_lower "''centos-7''"]
    get_os_type_cases [of "family_image ''windows-2019''" ascii_lower "''windows-2019''"]
    get_os_type_cases [of "family_image ''centos-7''" ascii_lower "''centos-7''"]
    get_os_type_cases [of "family_image ''acme-custom''" ascii_lower "''acme-custom''"]
  by (simp add: labelled_image_def family_image_def visual_v1_def os_label_def
      explicit_os_label_def ascii_lower_def
      lower_char_def linux_families_def)

text \<open>
  The claim as it is written fails: an image of the family \<^verbatim>\<open>centos-7\<close> with the
  label \<^verbatim>\<open>MacOS\<close> is classified \<^verbatim>\<open>macos\<close>, which is neither \<^verbatim>\<open>linux\<close> nor
  \<^verbatim>\<open>windows\<close>.
\<close>

theorem label_outside_linux_windows:
  "get_os_type ascii_lower (labelled_image ''MacOS'') = Inr ''macos''
   \<and> get_os_type ascii_lower (labelled_image ''MacOS'') \<notin> {Inr ''linux'', Inr ''windows''}"
  by (simp add: get_os_type_def labelled_image_def visual_v1_def os_label_def
      explicit_os_label_def ascii_lower_def
      lower_char_def)

subsection \<open>The payload\<close>

lemma expand_disks_Inr:
  "expand_disks z u l ds = Inr ds' \<Longrightarrow>
   map boot ds' = map boot ds
   \<and> map (\<lambda>d. sourceImage (initializeParams d)) ds'
     = map (\<lambda>d. if boot d \<and> u then Some (selfLink l) else sourceImage (initializeParams d)) ds"
proof (induction ds arbitrary: ds')
  case Nil
  then show ?case by simp
next
  case (Cons d ds)
  then show ?case
    by (auto simp: bindE_eq_Inr Let_def split: option.splits)
qed

text \<open>What a payload that was assembled tells about the steps of the assembly.\<close>

lemma assemble_payload_Inr:
  assumes "assemble_payload lower c bucket inst t im om name = Inr p"
  obtains ds bi bl ds' nis md where
    "disks (template_properties t) = Some ds"
    "get_boot_images c ds = Inr (bi, bl)"
    "expand_disks (zone_url inst) (use_latest_image inst) bl ds = Inr ds'"
    "networkInterfaces (template_properties t) = Some nis"
    "set_startup_script lower bucket im (if use_latest_image inst then bl else bi) = Inr md"
    "payload_name p = name"
    "machineType (body p) = Some (machine_type_url (zone_url inst) om)"
    "disks (body p) = Some ds'"
    "networkInterfaces (body p) = Some (map (expand_interface (region_url inst) om) nis)"
    "metadata (body p) = Some \<lparr>items = Some md\<rparr>"
proof (cases "disks (template_properties t)")
  case None
  with assms show ?thesis by (simp add: assemble_payload_def)
next
  case ds: (Some ds)
  show ?thesis
  proof (cases "get_boot_images c ds")
    case (Inl e)
    with assms ds show ?thesis by (simp add: assemble_payload_def)
  next
    case (Inr imgs)
    obtain bi bl where imgs: "imgs = (bi, bl)" by (cases imgs)
    show ?thesis
    proof (cases "expand_disks (zone_url inst) (use_latest_image inst) bl ds")
      case (Inl e)
      with assms ds Inr imgs show ?thesis by (simp add: assemble_payload_def)
    next
      case ds': (Inr ds')
      show ?thesis
      proof (cases "networkInterfaces (template_properties t)")
        case None
        with assms ds Inr imgs ds' show ?thesis by (simp add: assemble_payload_def)
      next
        case nis: (Some nis)
        show ?thesis
        proof (cases "set_startup_script lower bucket im (if use_latest_image inst then bl else bi)")
          case (Inl e)
          with assms ds Inr imgs ds' nis show ?thesis by (simp add: assemble_payload_def)
        next
          case md: (Inr md)
          from assms [symmetric] ds Inr imgs ds' nis md
          have "p = \<lparr>payload_name = name,
              description = ''Orchestrate instance created from template '' @ template inst
                            @ '' size '' @ instance_size inst,
              body = (template_properties t)
                \<lparr>metadata := None,
                 machineType := Some (machine_type_url (zone_url inst) om),
                 guestAccelerators := map_option (map (expand_accelerator (zone_url inst)))
                                        (guestAccelerators (template_properties t)),
                 disks := Some ds',
                 networkInterfaces := Some (map (expand_interface (region_url inst) om) nis),
                 metadata := Some \<lparr>items = Some md\<rparr>\<rparr>\<rparr>"
            by (simp add: assemble_payload_def Let_def)
          then have "payload_name p = name"
            "machineType (body p) = Some (machine_type_url (zone_url inst) om)"
            "disks (body p) = Some ds'"
            "networkInterfaces (body p) = Some (map (expand_interface (region_url inst) om) nis)"
            "metadata (body p) = Some \<lparr>items = Some md\<rparr>"
            by simp_all
          with that ds Inr imgs ds' nis md show ?thesis by blast
        qed
      qed
    qed
  qed
qed

lemma build_instance_payload_Inr:
  assumes "build_instance_payload lower c bucket ext u inst = Inr p"
  obtains t im om name where
    "get_template c inst = Inr t"
    "get_metadata inst t = Inr (im, om)"
    "build_name ext u inst om = Inr name"
    "assemble_payload lower c bucket inst t im om name = Inr p"
  using assms by (auto simp: build_instance_payload_def bindE_eq_Inr)

lemma get_images_Inr:
  assumes "get_images c parameters = Inr (bi, bl)"
  obtains link proj version fam where
    "sourceImage parameters = Some link"
    "match_source_image link = Some (proj, version)"
    "images_get c proj version = Inr bi"
    "family bi = Some fam"
    "images_getFromFamily c proj fam = Inr bl"
  using assms
  by (auto simp: get_images_def bindE_eq_Inr split: option.splits)

lemma get_boot_images_Inr:
  assumes "get_boot_images c ds = Inr imgs"
  shows "\<exists>d \<in> set ds. boot d \<and> get_images c (initializeParams d) = Inr imgs"
  using assms by (induction ds) (auto split: if_splits)

text \<open>The definitions of the concrete inputs, and those of the steps of a request.\<close>

lemmas inputs = request_def render_template_def render_properties_def boot_disk_def data_disk_def
  visual_v1_def visual_v2_def cloud_def no_ext_def with_properties_def

lemmas steps = build_instance_payload_def assemble_payload_def get_template_def get_metadata_def
  template_items_def build_name_def name_pattern_def default_pattern_def format_str_def
  name_kwargs_def field_char_def digits_only_def region_of_def region_url_def zone_url_def
  get_images_def match_source_image_def lit_def machine_type_url_def expand_interface_def
  expand_accelerator_def set_startup_script_def get_os_type_def os_label_def explicit_os_label_def
  linux_families_def
  Let_def suffix_to_prefix

text \<open>
  Claim C2, as the code has it. The machine type of an assembled payload is the URL
  \<^verbatim>\<open>projects/{project}/zones/{zone}/machineTypes/{machine_type}\<close> of the request's
  project and zone. Its last component is the value of \<^verbatim>\<open>machine_type\<close> in the
  extended metadata when they have that key, and \<^verbatim>\<open>n1-standard-8\<close> otherwise: the
  machine type that the template's properties declare is never read. The first part is
  the assembly for any extended metadata, the second the whole of
  \<^verbatim>\<open>build_instance_payload\<close>.
\<close>

theorem machine_type_override_or_default:
  "(assemble_payload lower c bucket inst t im om name = Inr p \<longrightarrow>
      machineType (body p)
      = Some (''projects/'' @ project inst @ ''/zones/'' @ zone inst @ ''/machineTypes/''
              @ (case om ''machine_type'' of None \<Rightarrow> ''n1-standard-8'' | Some m \<Rightarrow> m)))
   \<and> (build_instance_payload lower c bucket ext u inst = Inr q \<longrightarrow>
      (\<exists>t' im' om'. get_template c inst = Inr t' \<and> get_metadata inst t' = Inr (im', om')
         \<and> machineType (body q)
           = Some (''projects/'' @ project inst @ ''/zones/'' @ zone inst @ ''/machineTypes/''
                   @ (case om' ''machine_type'' of None \<Rightarrow> ''n1-standard-8'' | Some m \<Rightarrow> m))))"
proof (intro conjI impI)
  assume "assemble_payload lower c bucket inst t im om name = Inr p"
  then show "machineType (body p)
      = Some (''projects/'' @ project inst @ ''/zones/'' @ zone inst @ ''/machineTypes/''
              @ (case om ''machine_type'' of None \<Rightarrow> ''n1-standard-8'' | Some m \<Rightarrow> m))"
    by (elim assemble_payload_Inr) (simp add: machine_type_url_def zone_url_def)
next
  assume "build_instance_payload lower c bucket ext u inst = Inr q"
  then obtain t' im' om' name' where found: "get_template c inst = Inr t'"
    "get_metadata inst t' = Inr (im', om')"
    "assemble_payload lower c bucket inst t' im' om' name' = Inr q"
    by (elim build_instance_payload_Inr)
  from found(3) have "machineType (body q)
      = Some (''projects/'' @ project inst @ ''/zones/'' @ zone inst @ ''/machineTypes/''
              @ (case om' ''machine_type'' of None \<Rightarrow> ''n1-standard-8'' | Some m \<Rightarrow> m))"
    by (elim assemble_payload_Inr) (simp add: machine_type_url_def zone_url_def)
  with found(1,2) show "\<exists>t' im' om'. get_template c inst = Inr t' \<and> get_metadata inst t' = Inr (im', om')
         \<and> machineType (body q)
           = Some (''projects/'' @ project inst @ ''/zones/'' @ zone inst @ ''/machineTypes/''
                   @ (case om' ''machine_type'' of None \<Rightarrow> ''n1-standard-8'' | Some m \<Rightarrow> m))"
    by blast
qed

theorem machine_type_override_or_default_witness:
  "map_sum id (machineType \<circ> body)
     (assemble_payload ascii_lower (cloud render_template visual_v1 (Inl (HttpError 500))) ''bkt'' request
        render_template [] [''machine_type'' \<mapsto> ''n1-highmem-4''] ''ws'')
   = Inr (Some ''projects/studio/zones/us-central1-a/machineTypes/n1-highmem-4'')
   \<and> map_sum id (machineType \<circ> body)
     (build_instance_payload ascii_lower (cloud render_template visual_v1 (Inl (HttpError 500))) ''bkt'' no_ext
        ''0123456789abcdef'' request)
   = Inr (Some ''projects/studio/zones/us-central1-a/machineTypes/n1-standard-8'')"
proof -
  have "\<exists>p. assemble_payload ascii_lower (cloud render_template visual_v1 (Inl (HttpError 500))) ''bkt'' request
        render_template [] [''machine_type'' \<mapsto> ''n1-highmem-4''] ''ws'' = Inr p"
    by (simp add: inputs steps)
  then obtain p where p: "assemble_payload ascii_lower (cloud render_template visual_v1 (Inl (HttpError 500)))
        ''bkt'' request render_template [] [''machine_type'' \<mapsto> ''n1-highmem-4''] ''ws'' = Inr p"
    by blast
  have "\<exists>q. build_instance_payload ascii_lower (cloud render_template visual_v1 (Inl (HttpError 500))) ''bkt''
        no_ext ''0123456789abcdef'' request = Inr q"
    by (simp add: inputs steps)
  then obtain q where q: "build_instance_payload ascii_lower (cloud render_template visual_v1 (Inl (HttpError 500)))
        ''bkt'' no_ext ''0123456789abcdef'' request = Inr q"
    by blast
  note at_input = machine_type_override_or_default [where p = p and q = q,
      of ascii_lower "cloud render_template visual_v1 (Inl (HttpError 500))" "''bkt''" request render_template
         "[]" "[''machine_type'' \<mapsto> ''n1-highmem-4'']" "''ws''" no_ext "''0123456789abcdef''"]
  from at_input [THEN conjunct1, THEN mp, OF p]
  have first: "machineType (body p)
      = Some (''projects/'' @ project request @ ''/zones/'' @ zone request
              @ ''/machineTypes/n1-highmem-4'')"
    by simp
  from at_input [THEN conjunct2, THEN mp, OF q]
  have "machineType (body q)
      = Some (''projects/'' @ project request @ ''/zones/'' @ zone request
              @ ''/machineTypes/n1-standard-8'')"
  proof (elim exE conjE)
    fix t' im' om'
    assume meta: "get_metadata request t' = Inr (im', om')"
      and second: "machineType (body q)
        = Some (''projects/'' @ project request @ ''/zones/'' @ zone request @ ''/machineTypes/''
                @ (case om' ''machine_type'' of None \<Rightarrow> ''n1-standard-8'' | Some m \<Rightarrow> m))"
    have "om' ''machine_type'' = None"
    proof (cases "om' ''machine_type''")
      case (Some v)
      from get_metadata_keys [OF meta Some] show ?thesis by simp
    qed simp
    with second show ?thesis by simp
  qed
  with first p q show ?thesis
    by (simp add: request_def)
qed

text \<open>
  The claim as it is written fails: the template declares \<^verbatim>\<open>n1-highmem-4\<close>, its
  metadata have no prefixed item, and the payload asks for \<^verbatim>\<open>n1-standard-8\<close>.
\<close>

theorem template_machine_type_ignored:
  "map_sum id (machineType \<circ> body)
     (build_instance_payload ascii_lower (cloud render_template visual_v1 (Inl (HttpError 500))) ''bkt'' no_ext
        ''0123456789abcdef'' request)
   = Inr (Some ''projects/studio/zones/us-central1-a/machineTypes/n1-standard-8'')
   \<and> machineType (template_properties render_template) = Some ''n1-highmem-4''"
  by (simp add: inputs steps)

text \<open>
  Claim C8. In a payload that \<^verbatim>\<open>build_instance_payload\<close> returns, the disks are those
  of the template, in order and with their boot flags. With the request's flag
  \<^verbatim>\<open>use_latest_image\<close> set, the source image of a boot disk is the \<^verbatim>\<open>selfLink\<close> of the
  latest image, which is what \<^verbatim>\<open>getFromFamily\<close> returns for the family of the boot image;
  with the flag unset, a boot disk keeps the source image of the template. A disk that
  is not a boot disk keeps its source image in both cases.
\<close>

theorem boot_disk_source_image:
  assumes "build_instance_payload lower c bucket ext u inst = Inr p"
  shows "\<exists>t ds ds' bi bl proj fam.
      get_template c inst = Inr t
      \<and> disks (template_properties t) = Some ds
      \<and> get_boot_images c ds = Inr (bi, bl)
      \<and> family bi = Some fam
      \<and> images_getFromFamily c proj fam = Inr bl
      \<and> disks (body p) = Some ds'
      \<and> map boot ds' = map boot ds
      \<and> map (\<lambda>d. sourceImage (initializeParams d)) ds'
        = map (\<lambda>d. if boot d \<and> use_latest_image inst then Some (selfLink bl)
                    else sourceImage (initializeParams d)) ds"
proof -
  from assms obtain t im om name where t: "get_template c inst = Inr t"
    and assembled: "assemble_payload lower c bucket inst t im om name = Inr p"
    by (elim build_instance_payload_Inr)
  from assembled obtain ds bi bl ds' where ds: "disks (template_properties t) = Some ds"
    and images: "get_boot_images c ds = Inr (bi, bl)"
    and expanded: "expand_disks (zone_url inst) (use_latest_image inst) bl ds = Inr ds'"
    and ds': "disks (body p) = Some ds'"
    by (elim assemble_payload_Inr)
  from get_boot_images_Inr [OF images] obtain d :: disk where "get_images c (initializeParams d) = Inr (bi, bl)"
    by blast
  then obtain proj fam where latest: "family bi = Some fam" "images_getFromFamily c proj fam = Inr bl"
    by (elim get_images_Inr)
  from expand_disks_Inr [OF expanded, THEN conjunct1] expand_disks_Inr [OF expanded, THEN conjunct2]
    t ds images latest ds'
  show ?thesis
    by (intro exI conjI) assumption+
qed

theorem boot_disk_source_image_witness:
  "map_sum id (map_option (map boot) \<circ> disks \<circ> body)
     (build_instance_payload ascii_lower (cloud render_template visual_v1 (Inl (HttpError 500))) ''bkt'' no_ext
        ''0123456789abcdef'' (request\<lparr>use_latest_image := True\<rparr>))
   = Inr (Some [False, True])
   \<and> map_sum id (map_option (map (sourceImage \<circ> initializeParams)) \<circ> disks \<circ> body)
     (build_instance_payload ascii_lower (cloud render_template visual_v1 (Inl (HttpError 500))) ''bkt'' no_ext
        ''0123456789abcdef'' (request\<lparr>use_latest_image := True\<rparr>))
   = Inr (Some [Some ''projects/media/global/images/assets-v3'',
                Some ''https://www.googleapis.com/compute/v1/projects/media/global/images/visual-v2''])"
proof -
  let ?c = "cloud render_template visual_v1 (Inl (HttpError 500))"
  let ?inst = "request\<lparr>use_latest_image := True\<rparr>"
  have "\<exists>p. build_instance_payload ascii_lower ?c ''bkt'' no_ext ''0123456789abcdef'' ?inst = Inr p"
    by (simp add: inputs steps)
  then obtain p where p: "build_instance_payload ascii_lower ?c ''bkt'' no_ext ''0123456789abcdef'' ?inst = Inr p"
    by (elim exE)
  have t: "get_template ?c ?inst = Inr render_template"
    by (simp add: inputs get_template_def)
  have images: "get_boot_images ?c [data_disk, boot_disk] = Inr (visual_v1, visual_v2)"
    by (simp add: inputs get_images_def match_source_image_def lit_def)
  from boot_disk_source_image [OF p]
  have "map_option (map boot) (disks (body p)) = Some [False, True]
    \<and> map_option (map (sourceImage \<circ> initializeParams)) (disks (body p))
      = Some [Some ''projects/media/global/images/assets-v3'',
              Some ''https://www.googleapis.com/compute/v1/projects/media/global/images/visual-v2'']"
  proof (elim exE conjE)
    fix t' ds ds' bi bl
    assume found: "get_template ?c ?inst = Inr t'"
      and listed: "disks (template_properties t') = Some ds"
      and resolved: "get_boot_images ?c ds = Inr (bi, bl)"
      and ds': "disks (body p) = Some ds'"
      and flags: "map boot ds' = map boot ds"
      and sources: "map (\<lambda>d. sourceImage (initializeParams d)) ds'
        = map (\<lambda>d. if boot d \<and> use_latest_image ?inst then Some (selfLink bl)
                    else sourceImage (initializeParams d)) ds"
    from found t have "t' = render_template" by simp
    with listed have ds: "ds = [data_disk, boot_disk]"
      by (simp add: render_template_def render_properties_def)
    with resolved images have "bl = visual_v2" by simp
    with flags sources ds ds' show ?thesis
      by (simp add: comp_def data_disk_def boot_disk_def visual_v2_def)
  qed
  with p show ?thesis by simp
qed

text \<open>
  Claim C10, as the code has it. The keys \<^verbatim>\<open>metadata\<close>, \<^verbatim>\<open>items\<close>, \<^verbatim>\<open>disks\<close> and
  \<^verbatim>\<open>networkInterfaces\<close> are indexed without a test. For a template that the locator
  has found: without the metadata or their item list the payload fails with the
  \<open>KeyError\<close> of that key; without the disks it fails with \<open>KeyError\<close> once the name
  is built; without the network interfaces it fails with \<open>KeyError\<close> once the name is
  built, the boot images are resolved and the disk types are rewritten. An earlier
  step that raises comes first, so the error need not be a \<open>KeyError\<close>; in every case
  no payload is returned.
\<close>

theorem missing_key_fails:
  assumes "get_template c inst = Inr t"
  shows "(metadata (template_properties t) = None \<longrightarrow>
        build_instance_payload lower c bucket ext u inst = Inl (KeyError ''metadata''))
    \<and> (metadata (template_properties t) = Some md \<and> items md = None \<longrightarrow>
        build_instance_payload lower c bucket ext u inst = Inl (KeyError ''items''))
    \<and> (disks (template_properties t) = None \<and> get_metadata inst t = Inr (im, om)
         \<and> build_name ext u inst om = Inr name \<longrightarrow>
        build_instance_payload lower c bucket ext u inst = Inl (KeyError ''disks''))
    \<and> (networkInterfaces (template_properties t) = None \<and> get_metadata inst t = Inr (im, om)
         \<and> build_name ext u inst om = Inr name \<and> disks (template_properties t) = Some ds
         \<and> get_boot_images c ds = Inr (bi, bl)
         \<and> expand_disks (zone_url inst) (use_latest_image inst) bl ds = Inr ds' \<longrightarrow>
        build_instance_payload lower c bucket ext u inst = Inl (KeyError ''networkInterfaces''))
    \<and> (metadata (template_properties t) = None
         \<or> (metadata (template_properties t) = Some md \<and> items md = None)
         \<or> disks (template_properties t) = None
         \<or> networkInterfaces (template_properties t) = None \<longrightarrow>
        build_instance_payload lower c bucket ext u inst \<noteq> Inr p)"
proof (intro conjI impI)
  assume "metadata (template_properties t) = None"
  with assms show "build_instance_payload lower c bucket ext u inst = Inl (KeyError ''metadata'')"
    by (simp add: build_instance_payload_def get_metadata_def template_items_def)
next
  assume "metadata (template_properties t) = Some md \<and> items md = None"
  with assms show "build_instance_payload lower c bucket ext u inst = Inl (KeyError ''items'')"
    by (simp add: build_instance_payload_def get_metadata_def template_items_def)
next
  assume "disks (template_properties t) = None \<and> get_metadata inst t = Inr (im, om)
         \<and> build_name ext u inst om = Inr name"
  with assms show "build_instance_payload lower c bucket ext u inst = Inl (KeyError ''disks'')"
    by (simp add: build_instance_payload_def assemble_payload_def)
next
  assume "networkInterfaces (template_properties t) = None \<and> get_metadata inst t = Inr (im, om)
         \<and> build_name ext u inst om = Inr name \<and> disks (template_properties t) = Some ds
         \<and> get_boot_images c ds = Inr (bi, bl)
         \<and> expand_disks (zone_url inst) (use_latest_image inst) bl ds = Inr ds'"
  with assms show "build_instance_payload lower c bucket ext u inst = Inl (KeyError ''networkInterfaces'')"
    by (simp add: build_instance_payload_def assemble_payload_def Let_def)
next
  assume missing: "metadata (template_properties t) = None
         \<or> (metadata (template_properties t) = Some md \<and> items md = None)
         \<or> disks (template_properties t) = None
         \<or> networkInterfaces (template_properties t) = None"
  show "build_instance_payload lower c bucket ext u inst \<noteq> Inr p"
  proof
    assume "build_instance_payload lower c bucket ext u inst = Inr p"
    then obtain t' im' om' name' where t': "get_template c inst = Inr t'"
      and split: "get_metadata inst t' = Inr (im', om')"
      and assembled: "assemble_payload lower c bucket inst t' im' om' name' = Inr p"
      by (elim build_instance_payload_Inr)
    from t' assms have same: "t' = t" by simp
    from split obtain its where "template_items t = Inr its"
      unfolding same by (auto simp: get_metadata_Inr)
    then have has_items: "\<exists>md'. metadata (template_properties t) = Some md' \<and> items md' \<noteq> None"
      by (auto simp: template_items_def split: option.splits)
    from assembled have "disks (template_properties t) \<noteq> None"
      and "networkInterfaces (template_properties t) \<noteq> None"
      unfolding same by (elim assemble_payload_Inr, simp)+
    with missing has_items show False by auto
  qed
qed

theorem missing_key_fails_witness:
  "build_instance_payload ascii_lower (cloud (with_properties (\<lambda>ps. ps\<lparr>metadata := None\<rparr>)) visual_v1 (Inl (HttpError 500)))
     ''bkt'' no_ext ''0123456789abcdef'' request = Inl (KeyError ''metadata'')
   \<and> build_instance_payload ascii_lower (cloud (with_properties (\<lambda>ps. ps\<lparr>metadata := Some \<lparr>items = None\<rparr>\<rparr>)) visual_v1 (Inl (HttpError 500)))
     ''bkt'' no_ext ''0123456789abcdef'' request = Inl (KeyError ''items'')
   \<and> build_instance_payload ascii_lower (cloud (with_properties (\<lambda>ps. ps\<lparr>disks := None\<rparr>)) visual_v1 (Inl (HttpError 500)))
     ''bkt'' no_ext ''0123456789abcdef'' request = Inl (KeyError ''disks'')
   \<and> build_instance_payload ascii_lower (cloud (with_properties (\<lambda>ps. ps\<lparr>networkInterfaces := None\<rparr>)) visual_v1 (Inl (HttpError 500)))
     ''bkt'' no_ext ''0123456789abcdef'' request = Inl (KeyError ''networkInterfaces'')
   \<and> (\<forall>p. build_instance_payload ascii_lower (cloud (with_properties (\<lambda>ps. ps\<lparr>disks := None\<rparr>)) visual_v1 (Inl (HttpError 500)))
     ''bkt'' no_ext ''0123456789abcdef'' (request\<lparr>instance_name := ''{''\<rparr>) \<noteq> Inr p)"
proof -
  let ?c = "\<lambda>change. cloud (with_properties change) visual_v1 (Inl (HttpError 500))"
  have found: "get_template (?c change) request = Inr (with_properties change)" for change
    by (simp add: cloud_def request_def get_template_def)
  have split: "metadata (change render_properties) = metadata render_properties \<Longrightarrow>
      get_metadata request (with_properties change)
      = Inr ([(''enable-oslogin'', ''TRUE''), (''owner'', ''ada'')], Map.empty)" for change
    by (simp add: with_properties_def render_template_def render_properties_def request_def
        get_metadata_def template_items_def)
  have named: "build_name no_ext ''0123456789abcdef'' request Map.empty = Inr ''render-8-01234''"
    by (simp add: inputs steps)
  have images: "get_boot_images (?c change) [data_disk, boot_disk] = Inr (visual_v1, visual_v2)" for change
    by (simp add: inputs get_images_def match_source_image_def lit_def)
  have expanded: "\<exists>ds'. expand_disks (zone_url request) (use_latest_image request) visual_v2
      [data_disk, boot_disk] = Inr ds'"
    by (simp add: inputs)
  then obtain ds' where ds': "expand_disks (zone_url request) (use_latest_image request) visual_v2
      [data_disk, boot_disk] = Inr ds'"
    by (elim exE)
  note at_input = missing_key_fails [OF found, of _ ascii_lower "''bkt''" no_ext "''0123456789abcdef''"]
  have first: "build_instance_payload ascii_lower (?c (\<lambda>ps. ps\<lparr>metadata := None\<rparr>))
     ''bkt'' no_ext ''0123456789abcdef'' request = Inl (KeyError ''metadata'')"
    by (rule at_input [of "\<lambda>ps. ps\<lparr>metadata := None\<rparr>", THEN conjunct1, THEN mp])
      (simp add: with_properties_def render_template_def)
  have second: "build_instance_payload ascii_lower (?c (\<lambda>ps. ps\<lparr>metadata := Some \<lparr>items = None\<rparr>\<rparr>))
     ''bkt'' no_ext ''0123456789abcdef'' request = Inl (KeyError ''items'')"
    by (rule at_input [of "\<lambda>ps. ps\<lparr>metadata := Some \<lparr>items = None\<rparr>\<rparr>" "\<lparr>items = None\<rparr>",
          THEN conjunct2, THEN conjunct1, THEN mp])
      (simp add: with_properties_def render_template_def)
  have third: "build_instance_payload ascii_lower (?c (\<lambda>ps. ps\<lparr>disks := None\<rparr>))
     ''bkt'' no_ext ''0123456789abcdef'' request = Inl (KeyError ''disks'')"
    by (rule at_input [of "\<lambda>ps. ps\<lparr>disks := None\<rparr>" _
          "[(''enable-oslogin'', ''TRUE''), (''owner'', ''ada'')]" Map.empty "''render-8-01234''",
          THEN conjunct2, THEN conjunct2, THEN conjunct1, THEN mp])
      (intro conjI split named, simp_all add: with_properties_def render_template_def)
  have fourth: "build_instance_payload ascii_lower (?c (\<lambda>ps. ps\<lparr>networkInterfaces := None\<rparr>))
     ''bkt'' no_ext ''0123456789abcdef'' request = Inl (KeyError ''networkInterfaces'')"
    by (rule at_input [of "\<lambda>ps. ps\<lparr>networkInterfaces := None\<rparr>" _
          "[(''enable-oslogin'', ''TRUE''), (''owner'', ''ada'')]" Map.empty "''render-8-01234''"
          "[data_disk, boot_disk]" visual_v1 visual_v2 ds',
          THEN conjunct2, THEN conjunct2, THEN conjunct2, THEN conjunct1, THEN mp])
      (intro conjI split named images ds',
        simp_all add: with_properties_def render_template_def render_properties_def)
  have found': "get_template (?c (\<lambda>ps. ps\<lparr>disks := None\<rparr>)) (request\<lparr>instance_name := ''{''\<rparr>)
      = Inr (with_properties (\<lambda>ps. ps\<lparr>disks := None\<rparr>))"
    by (simp add: cloud_def request_def get_template_def)
  have fifth: "build_instance_payload ascii_lower (?c (\<lambda>ps. ps\<lparr>disks := None\<rparr>))
     ''bkt'' no_ext ''0123456789abcdef'' (request\<lparr>instance_name := ''{''\<rparr>) \<noteq> Inr p" for p
    by (rule missing_key_fails [OF found', THEN conjunct2, THEN conjunct2, THEN conjunct2,
          THEN conjunct2, THEN mp])
      (simp add: with_properties_def render_template_def)
  from first second third fourth fifth show ?thesis by simp
qed

text \<open>
  The claim as it is written fails: a template without network interfaces whose only
  disk is not a boot disk fails with the error of the module, not with a lookup error.
\<close>

theorem no_boot_disk_comes_first:
  "build_instance_payload ascii_lower
     (cloud (with_properties (\<lambda>ps. ps\<lparr>networkInterfaces := None, disks := Some [data_disk]\<rparr>))
        visual_v1 (Inl (HttpError 500)))
     ''bkt'' no_ext ''0123456789abcdef'' request
   = Inl (OrchestrateInstanceCreationError ''Template has no boot disk.'')
   \<and> networkInterfaces (template_properties
         (with_properties (\<lambda>ps. ps\<lparr>networkInterfaces := None, disks := Some [data_disk]\<rparr>))) = None"
  by (simp add: inputs steps)

subsection \<open>The request\<close>

text \<open>
  What \<^verbatim>\<open>run\<close> makes of an error. When the payload is built and \<^verbatim>\<open>instances.insert\<close>
  is rejected with status 409, it raises \<open>OrchestrateInstanceCreationError\<close> with a
  message that carries the name of the payload, which is the name that \<^verbatim>\<open>build_name\<close>
  resolved. Any other error of the insertion, and any error of the construction of the
  payload other than a response 409, reaches the caller as it is. When the insertion
  is accepted, the response is \<^verbatim>\<open>SUBMITTED\<close> with the request id and the name.
\<close>

lemma run_error_handling:
  "(build_instance_payload lower c bucket ext nu inst = Inr p
      \<and> instances_insert c (project inst) (zone inst) p = Inl (HttpError 409) \<longrightarrow>
      run lower c bucket ext ru nu inst
      = Inl (OrchestrateInstanceCreationError
               (''An instance with name '' @ payload_name p @ '' already exists.''))
      \<and> (\<exists>t im om. get_template c inst = Inr t \<and> get_metadata inst t = Inr (im, om)
            \<and> build_name ext nu inst om = Inr (payload_name p)))
   \<and> (build_instance_payload lower c bucket ext nu inst = Inr p
      \<and> instances_insert c (project inst) (zone inst) p = Inl e \<and> e \<noteq> HttpError 409 \<longrightarrow>
      run lower c bucket ext ru nu inst = Inl e)
   \<and> (build_instance_payload lower c bucket ext nu inst = Inl e \<and> e \<noteq> HttpError 409 \<longrightarrow>
      run lower c bucket ext ru nu inst = Inl e)
   \<and> (build_instance_payload lower c bucket ext nu inst = Inr p
      \<and> instances_insert c (project inst) (zone inst) p = Inr started \<longrightarrow>
      run lower c bucket ext ru nu inst
      = Inr \<lparr>status = ''SUBMITTED'', request_id = ru, response_name = payload_name p\<rparr>)"
proof (intro conjI impI)
  assume conflict: "build_instance_payload lower c bucket ext nu inst = Inr p
      \<and> instances_insert c (project inst) (zone inst) p = Inl (HttpError 409)"
  then show "run lower c bucket ext ru nu inst
      = Inl (OrchestrateInstanceCreationError
               (''An instance with name '' @ payload_name p @ '' already exists.''))"
    by (simp add: run_def on_error_def)
  from conflict obtain t im om name where "get_template c inst = Inr t"
    "get_metadata inst t = Inr (im, om)" "build_name ext nu inst om = Inr name"
    "assemble_payload lower c bucket inst t im om name = Inr p"
    by (elim conjE build_instance_payload_Inr)
  moreover from this(4) have "payload_name p = name"
    by (elim assemble_payload_Inr)
  ultimately show "\<exists>t im om. get_template c inst = Inr t \<and> get_metadata inst t = Inr (im, om)
            \<and> build_name ext nu inst om = Inr (payload_name p)"
    by (intro exI conjI) simp_all
next
  assume "build_instance_payload lower c bucket ext nu inst = Inr p
      \<and> instances_insert c (project inst) (zone inst) p = Inl e \<and> e \<noteq> HttpError 409"
  then show "run lower c bucket ext ru nu inst = Inl e"
    by (cases e) (simp_all add: run_def on_error_def)
next
  assume "build_instance_payload lower c bucket ext nu inst = Inl e \<and> e \<noteq> HttpError 409"
  then show "run lower c bucket ext ru nu inst = Inl e"
    by (cases e) (simp_all add: run_def on_error_def)
next
  assume "build_instance_payload lower c bucket ext nu inst = Inr p
      \<and> instances_insert c (project inst) (zone inst) p = Inr started"
  then show "run lower c bucket ext ru nu inst
      = Inr \<lparr>status = ''SUBMITTED'', request_id = ru, response_name = payload_name p\<rparr>"
    by (simp add: run_def)
qed

lemma run_error_handling_at_request:
  "run ascii_lower (cloud render_template visual_v1 (Inl (HttpError 409))) ''bkt'' no_ext ''f00d'' ''0123456789abcdef'' request
   = Inl (OrchestrateInstanceCreationError ''An instance with name render-8-01234 already exists.'')
   \<and> run ascii_lower (cloud render_template visual_v1 (Inl (HttpError 503))) ''bkt'' no_ext ''f00d'' ''0123456789abcdef'' request
     = Inl (HttpError 503)
   \<and> run ascii_lower (cloud render_template visual_v1 (Inl (HttpError 409))) ''bkt'' no_ext ''f00d'' ''0123456789abcdef''
       (request\<lparr>instance_size := ''16''\<rparr>)
     = Inl (HttpError 404)
   \<and> run ascii_lower (cloud render_template visual_v1 (Inr \<lparr>operation_name = ''operation-1''\<rparr>)) ''bkt'' no_ext ''f00d''
       ''0123456789abcdef'' request
     = Inr \<lparr>status = ''SUBMITTED'', request_id = ''f00d'', response_name = ''render-8-01234''\<rparr>"
proof -
  have "\<exists>p. build_instance_payload ascii_lower (cloud render_template visual_v1 inserted) ''bkt'' no_ext
        ''0123456789abcdef'' request = Inr p \<and> payload_name p = ''render-8-01234''" for inserted
    by (simp add: inputs steps)
  then obtain p where p: "build_instance_payload ascii_lower (cloud render_template visual_v1 inserted) ''bkt'' no_ext
        ''0123456789abcdef'' request = Inr (p inserted)"
    and name: "payload_name (p inserted) = ''render-8-01234''" for inserted
    by metis
  have inserted: "instances_insert (cloud render_template visual_v1 inserted) pr z b = inserted"
    for inserted pr z and b :: "unit payload"
    by (simp add: cloud_def)
  have missing: "build_instance_payload ascii_lower (cloud render_template visual_v1 (Inl (HttpError 409))) ''bkt''
        no_ext ''0123456789abcdef'' (request\<lparr>instance_size := ''16''\<rparr>) = Inl (HttpError 404)"
    by (simp add: inputs build_instance_payload_def get_template_def)
  note at_input = run_error_handling [where bucket = "''bkt''" and ext = no_ext
      and nu = "''0123456789abcdef''" and ru = "''f00d''"]
  have first: "run ascii_lower (cloud render_template visual_v1 (Inl (HttpError 409))) ''bkt'' no_ext ''f00d''
        ''0123456789abcdef'' request
      = Inl (OrchestrateInstanceCreationError ''An instance with name render-8-01234 already exists.'')"
    using at_input [where c = "cloud render_template visual_v1 (Inl (HttpError 409))" and inst = request
        and p = "p (Inl (HttpError 409))", THEN conjunct1, THEN mp, OF conjI [OF p inserted], THEN conjunct1]
    by (simp add: name)
  have second: "run ascii_lower (cloud render_template visual_v1 (Inl (HttpError 503))) ''bkt'' no_ext ''f00d''
        ''0123456789abcdef'' request = Inl (HttpError 503)"
    by (rule at_input [where c = "cloud render_template visual_v1 (Inl (HttpError 503))" and inst = request
          and p = "p (Inl (HttpError 503))", THEN conjunct2, THEN conjunct1, THEN mp])
      (simp add: p inserted)
  have third: "run ascii_lower (cloud render_template visual_v1 (Inl (HttpError 409))) ''bkt'' no_ext ''f00d''
        ''0123456789abcdef'' (request\<lparr>instance_size := ''16''\<rparr>) = Inl (HttpError 404)"
    by (rule at_input [THEN conjunct2, THEN conjunct2, THEN conjunct1, THEN mp]) (simp add: missing)
  have fourth: "run ascii_lower (cloud render_template visual_v1 (Inr \<lparr>operation_name = ''operation-1''\<rparr>)) ''bkt''
        no_ext ''f00d'' ''0123456789abcdef'' request
      = Inr \<lparr>status = ''SUBMITTED'', request_id = ''f00d'', response_name = ''render-8-01234''\<rparr>"
    using at_input [where c = "cloud render_template visual_v1 (Inr \<lparr>operation_name = ''operation-1''\<rparr>)"
        and inst = request and p = "p (Inr \<lparr>operation_name = ''operation-1''\<rparr>)",
        THEN conjunct2, THEN conjunct2, THEN conjunct2, THEN mp, OF conjI [OF p inserted]]
    by (simp add: name)
  from first second third fourth show ?thesis by simp
qed

text \<open>
  The \<^verbatim>\<open>try\<close> block of \<^verbatim>\<open>run\<close> also covers \<^verbatim>\<open>build_instance_payload\<close>, which
  calls the client to look up the template and the images. A response 409 to one of
  these calls is handled before \<^verbatim>\<open>payload\<close> is assigned, and reading
  \<^verbatim>\<open>payload['name']\<close> for the message raises \<open>UnboundLocalError\<close>.
\<close>

lemma run_unbound_payload:
  "build_instance_payload lower c bucket ext nu inst = Inl (HttpError 409) \<Longrightarrow>
   run lower c bucket ext ru nu inst = Inl UnboundLocalError"
  by (simp add: run_def on_error_def)

text \<open>
  Claim C7. The claim says that a rejection with status 409 becomes the error of the
  module with the resolved name, and that every other remote error reaches the caller
  unchanged. The code does neither when the response 409 answers a lookup: with a
  client whose \<^verbatim>\<open>instanceTemplates.get\<close> answers 409, \<^verbatim>\<open>run\<close> raises
  \<open>UnboundLocalError\<close>, which is neither the \<open>HttpError\<close> of the client nor
  \<open>OrchestrateInstanceCreationError\<close>.
\<close>

theorem lookup_conflict_unbound_payload:
  "instanceTemplates_get conflicting_lookup ''studio'' ''render-8'' = Inl (HttpError 409)
   \<and> run ascii_lower conflicting_lookup ''bkt'' no_ext ''f00d'' ''0123456789abcdef'' request
     = Inl UnboundLocalError
   \<and> \<not> is_domain_error UnboundLocalError"
  by (simp add: conflicting_lookup_def cloud_def request_def run_def on_error_def
      build_instance_payload_def get_template_def is_domain_error_def)

text \<open>
  Claim C9, as the code has it. For an image whose label \<^verbatim>\<open>orchestrate_os\<close> is not
  empty and, in lower case, is neither \<^verbatim>\<open>linux\<close> nor \<^verbatim>\<open>windows\<close>,
  \<^verbatim>\<open>set_startup_script\<close> returns the metadata it was given and raises nothing. When
  that image is the one that boots and the other steps succeed, the payload is
  assembled with the instance metadata as its metadata items, nothing appended, and
  that payload is the one that \<^verbatim>\<open>run\<close> passes to \<^verbatim>\<open>instances.insert\<close>: the response
  is \<^verbatim>\<open>SUBMITTED\<close> when the insertion is accepted. (An empty label is no label: the
  family decides.)
\<close>

theorem unlisted_label_no_startup_script:
  assumes "os_label img \<noteq> []"
    and "lower (os_label img) \<noteq> ''linux''"
    and "lower (os_label img) \<noteq> ''windows''"
  shows "set_startup_script lower bucket md img = Inr md
    \<and> (disks (template_properties t) = Some ds
         \<and> get_boot_images c ds = Inr (bi, bl)
         \<and> (if use_latest_image inst then bl else bi) = img
         \<and> expand_disks (zone_url inst) (use_latest_image inst) bl ds = Inr ds'
         \<and> networkInterfaces (template_properties t) = Some nis \<longrightarrow>
       (\<exists>p. assemble_payload lower c bucket inst t im om name = Inr p
          \<and> metadata (body p) = Some \<lparr>items = Some im\<rparr>))
    \<and> (get_template c inst = Inr t
         \<and> get_metadata inst t = Inr (im, om)
         \<and> build_name ext nu inst om = Inr name
         \<and> disks (template_properties t) = Some ds
         \<and> get_boot_images c ds = Inr (bi, bl)
         \<and> (if use_latest_image inst then bl else bi) = img
         \<and> expand_disks (zone_url inst) (use_latest_image inst) bl ds = Inr ds'
         \<and> networkInterfaces (template_properties t) = Some nis \<longrightarrow>
       (\<exists>p. build_instance_payload lower c bucket ext nu inst = Inr p
          \<and> metadata (body p) = Some \<lparr>items = Some im\<rparr>
          \<and> run lower c bucket ext ru nu inst
            = (case instances_insert c (project inst) (zone inst) p of
                 Inl e \<Rightarrow> Inl (on_error (Some p) e)
               | Inr started \<Rightarrow>
                   Inr \<lparr>status = ''SUBMITTED'', request_id = ru, response_name = name\<rparr>)))"
proof -
  have unchanged: "set_startup_script lower bucket xs img = Inr xs" for xs
    using assms by (simp add: set_startup_script_def get_os_type_def)
  have assembled: "\<exists>p. assemble_payload lower c bucket inst t im om name = Inr p
        \<and> metadata (body p) = Some \<lparr>items = Some im\<rparr> \<and> payload_name p = name"
    if steps: "disks (template_properties t) = Some ds
         \<and> get_boot_images c ds = Inr (bi, bl)
         \<and> (if use_latest_image inst then bl else bi) = img
         \<and> expand_disks (zone_url inst) (use_latest_image inst) bl ds = Inr ds'
         \<and> networkInterfaces (template_properties t) = Some nis"
  proof -
    from steps
    have "set_startup_script lower bucket im (if use_latest_image inst then bl else bi) = Inr im"
      using unchanged by simp
    with steps show ?thesis
      by (simp add: assemble_payload_def Let_def)
  qed
  show ?thesis
  proof (intro conjI impI)
    show "set_startup_script lower bucket md img = Inr md"
      by (rule unchanged)
  next
    assume "disks (template_properties t) = Some ds
         \<and> get_boot_images c ds = Inr (bi, bl)
         \<and> (if use_latest_image inst then bl else bi) = img
         \<and> expand_disks (zone_url inst) (use_latest_image inst) bl ds = Inr ds'
         \<and> networkInterfaces (template_properties t) = Some nis"
    from assembled [OF this]
    show "\<exists>p. assemble_payload lower c bucket inst t im om name = Inr p
          \<and> metadata (body p) = Some \<lparr>items = Some im\<rparr>"
      by (elim exE conjE) (intro exI conjI)
  next
    assume all: "get_template c inst = Inr t
         \<and> get_metadata inst t = Inr (im, om)
         \<and> build_name ext nu inst om = Inr name
         \<and> disks (template_properties t) = Some ds
         \<and> get_boot_images c ds = Inr (bi, bl)
         \<and> (if use_latest_image inst then bl else bi) = img
         \<and> expand_disks (zone_url inst) (use_latest_image inst) bl ds = Inr ds'
         \<and> networkInterfaces (template_properties t) = Some nis"
    then have "disks (template_properties t) = Some ds
         \<and> get_boot_images c ds = Inr (bi, bl)
         \<and> (if use_latest_image inst then bl else bi) = img
         \<and> expand_disks (zone_url inst) (use_latest_image inst) bl ds = Inr ds'
         \<and> networkInterfaces (template_properties t) = Some nis"
      by simp
    from assembled [OF this] obtain p
      where p: "assemble_payload lower c bucket inst t im om name = Inr p"
        and unchanged_items: "metadata (body p) = Some \<lparr>items = Some im\<rparr>"
        and named: "payload_name p = name"
      by (elim exE conjE)
    from all p have built: "build_instance_payload lower c bucket ext nu inst = Inr p"
      by (simp add: build_instance_payload_def)
    then have "run lower c bucket ext ru nu inst
        = (case instances_insert c (project inst) (zone inst) p of
             Inl e \<Rightarrow> Inl (on_error (Some p) e)
           | Inr started \<Rightarrow>
               Inr \<lparr>status = ''SUBMITTED'', request_id = ru, response_name = name\<rparr>)"
      by (simp add: run_def named split: sum.split)
    with built unchanged_items
    show "\<exists>p. build_instance_payload lower c bucket ext nu inst = Inr p
          \<and> metadata (body p) = Some \<lparr>items = Some im\<rparr>
          \<and> run lower c bucket ext ru nu inst
            = (case instances_insert c (project inst) (zone inst) p of
                 Inl e \<Rightarrow> Inl (on_error (Some p) e)
               | Inr started \<Rightarrow>
                   Inr \<lparr>status = ''SUBMITTED'', request_id = ru, response_name = name\<rparr>)"
      by (intro exI conjI)
  qed
qed

theorem unlisted_label_no_startup_script_witness:
  "set_startup_script ascii_lower ''bkt'' [(''owner'', ''ada'')] (labelled_image ''MacOS'')
   = Inr [(''owner'', ''ada'')]
   \<and> (\<exists>p. assemble_payload ascii_lower
            (cloud render_template (labelled_image ''MacOS'') (Inr \<lparr>operation_name = ''operation-1''\<rparr>))
            ''bkt'' request render_template [(''owner'', ''ada'')] Map.empty ''ws'' = Inr p
          \<and> metadata (body p) = Some \<lparr>items = Some [(''owner'', ''ada'')]\<rparr>)
   \<and> (\<exists>p. build_instance_payload ascii_lower
            (cloud render_template (labelled_image ''MacOS'') (Inr \<lparr>operation_name = ''operation-1''\<rparr>))
            ''bkt'' no_ext ''0123456789abcdef'' request = Inr p
          \<and> metadata (body p)
            = Some \<lparr>items = Some [(''enable-oslogin'', ''TRUE''), (''owner'', ''ada'')]\<rparr>)
   \<and> run ascii_lower
        (cloud render_template (labelled_image ''MacOS'') (Inr \<lparr>operation_name = ''operation-1''\<rparr>))
        ''bkt'' no_ext ''f00d'' ''0123456789abcdef'' request
     = Inr \<lparr>status = ''SUBMITTED'', request_id = ''f00d'', response_name = ''render-8-01234''\<rparr>"
proof -
  let ?c = "cloud render_template (labelled_image ''MacOS'') (Inr \<lparr>operation_name = ''operation-1''\<rparr>)"
  have label: "os_label (labelled_image ''MacOS'') \<noteq> []"
    "ascii_lower (os_label (labelled_image ''MacOS'')) \<noteq> ''linux''"
    "ascii_lower (os_label (labelled_image ''MacOS'')) \<noteq> ''windows''"
    by (simp_all add: labelled_image_def visual_v1_def os_label_def explicit_os_label_def
        ascii_lower_def lower_char_def)
  have found: "get_template ?c request = Inr render_template"
    by (simp add: cloud_def request_def get_template_def)
  have split: "get_metadata request render_template
      = Inr ([(''enable-oslogin'', ''TRUE''), (''owner'', ''ada'')], Map.empty)"
    by (simp add: render_template_def render_properties_def request_def get_metadata_def
        template_items_def)
  have named: "build_name no_ext ''0123456789abcdef'' request Map.empty = Inr ''render-8-01234''"
    by (simp add: inputs steps)
  have listed: "disks (template_properties render_template) = Some [data_disk, boot_disk]"
    by (simp add: render_template_def render_properties_def)
  have images: "get_boot_images ?c [data_disk, boot_disk] = Inr (labelled_image ''MacOS'', visual_v2)"
    by (simp add: cloud_def data_disk_def boot_disk_def get_images_def match_source_image_def
        lit_def labelled_image_def visual_v1_def)
  have booted: "(if use_latest_image request then visual_v2 else labelled_image ''MacOS'')
      = labelled_image ''MacOS''"
    by (simp add: request_def)
  have "\<exists>ds'. expand_disks (zone_url request) (use_latest_image request) visual_v2
      [data_disk, boot_disk] = Inr ds'"
    by (simp add: inputs)
  then obtain ds' where expanded: "expand_disks (zone_url request) (use_latest_image request)
      visual_v2 [data_disk, boot_disk] = Inr ds'"
    by (elim exE)
  have interfaces: "networkInterfaces (template_properties render_template)
      = Some [\<lparr>network = None, subnetwork = None\<rparr>]"
    by (simp add: render_template_def render_properties_def)
  note steps_hold = conjI [OF listed conjI [OF images conjI [OF booted conjI [OF expanded interfaces]]]]
  note at_input = unlisted_label_no_startup_script [where lower = ascii_lower
      and img = "labelled_image ''MacOS''" and c = ?c and inst = request
      and t = render_template and bucket = "''bkt''" and ds = "[data_disk, boot_disk]"
      and bi = "labelled_image ''MacOS''" and bl = visual_v2 and ds' = ds'
      and nis = "[\<lparr>network = None, subnetwork = None\<rparr>]", OF label]
  have first: "set_startup_script ascii_lower ''bkt'' [(''owner'', ''ada'')] (labelled_image ''MacOS'')
      = Inr [(''owner'', ''ada'')]"
    by (rule at_input [THEN conjunct1])
  have second: "\<exists>p. assemble_payload ascii_lower ?c ''bkt'' request render_template
        [(''owner'', ''ada'')] Map.empty ''ws'' = Inr p
      \<and> metadata (body p) = Some \<lparr>items = Some [(''owner'', ''ada'')]\<rparr>"
    by (rule at_input [THEN conjunct2, THEN conjunct1, THEN mp, OF steps_hold])
  from at_input [where im = "[(''enable-oslogin'', ''TRUE''), (''owner'', ''ada'')]" and om = Map.empty
      and name = "''render-8-01234''" and ext = no_ext and nu = "''0123456789abcdef''"
      and ru = "''f00d''", THEN conjunct2, THEN conjunct2, THEN mp,
      OF conjI [OF found conjI [OF split conjI [OF named steps_hold]]]]
  obtain p where built: "build_instance_payload ascii_lower ?c ''bkt'' no_ext ''0123456789abcdef''
        request = Inr p"
    and unchanged: "metadata (body p)
        = Some \<lparr>items = Some [(''enable-oslogin'', ''TRUE''), (''owner'', ''ada'')]\<rparr>"
    and submitted: "run ascii_lower ?c ''bkt'' no_ext ''f00d'' ''0123456789abcdef'' request
        = (case instances_insert ?c (project request) (zone request) p of
             Inl e \<Rightarrow> Inl (on_error (Some p) e)
           | Inr started \<Rightarrow>
               Inr \<lparr>status = ''SUBMITTED'', request_id = ''f00d'',
                    response_name = ''render-8-01234''\<rparr>)"
    by (elim exE conjE)
  have "instances_insert ?c (project request) (zone request) p = Inr \<lparr>operation_name = ''operation-1''\<rparr>"
    by (simp add: cloud_def)
  with submitted have fourth: "run ascii_lower ?c ''bkt'' no_ext ''f00d'' ''0123456789abcdef'' request
      = Inr \<lparr>status = ''SUBMITTED'', request_id = ''f00d'', response_name = ''render-8-01234''\<rparr>"
    by simp
  from built unchanged have third: "\<exists>p. build_instance_payload ascii_lower ?c ''bkt'' no_ext
        ''0123456789abcdef'' request = Inr p
      \<and> metadata (body p)
        = Some \<lparr>items = Some [(''enable-oslogin'', ''TRUE''), (''owner'', ''ada'')]\<rparr>"
    by (intro exI conjI)
  from first second third fourth show ?thesis
    by (intro conjI)
qed

text \<open>
  The claim as it is written fails: an image of the family \<^verbatim>\<open>centos-7\<close> carries the
  label \<^verbatim>\<open>orchestrate_os\<close> with the empty string as its value, which in lower case
  is neither \<^verbatim>\<open>linux\<close> nor \<^verbatim>\<open>windows\<close>, and \<^verbatim>\<open>set_startup_script\<close> appends the
  startup script of Linux, as the family says.
\<close>

theorem empty_label_falls_through:
  "explicit_os_label (labelled_image []) = Some []
   \<and> ascii_lower [] \<notin> {''linux'', ''windows''}
   \<and> set_startup_script ascii_lower ''bkt'' [(''owner'', ''ada'')] (labelled_image [])
     = Inr [(''owner'', ''ada''), (''startup-script-url'', ''gs://bkt/remotedesktopconfigure.py'')]"
  by (simp add: labelled_image_def visual_v1_def explicit_os_label_def os_label_def ascii_lower_def
      set_startup_script_def get_os_type_def linux_families_def)

subsection \<open>Boot images\<close>

lemma dot_star_Some:
  "dot_star k s = Some (p, r) \<Longrightarrow> \<exists>rest. s = p @ rest \<and> k rest = Some r \<and> CHR 0x0A \<notin> set p"
proof (induction s arbitrary: p)
  case Nil
  then show ?case by auto
next
  case (Cons c cs)
  show ?case
  proof (cases "c = CHR 0x0A")
    case True
    with Cons.prems show ?thesis by auto
  next
    case False
    show ?thesis
    proof (cases "dot_star k cs")
      case None
      with False Cons.prems show ?thesis by auto
    next
      case (Some found)
      obtain p' r' where found: "found = (p', r')" by (cases found)
      with Some False Cons.prems have "p = c # p'" "r' = r" by auto
      moreover from Cons.IH [of p'] Some found \<open>r' = r\<close>
      have "\<exists>rest. cs = p' @ rest \<and> k rest = Some r \<and> CHR 0x0A \<notin> set p'"
        by simp
      ultimately show ?thesis using False by auto
    qed
  qed
qed

lemma dot_star_here: "k s \<noteq> None \<Longrightarrow> dot_star k s \<noteq> None"
  by (cases s) (auto split: option.splits)

lemma dot_star_complete:
  "CHR 0x0A \<notin> set p \<Longrightarrow> k rest \<noteq> None \<Longrightarrow> dot_star k (p @ rest) \<noteq> None"
proof (induction p)
  case Nil
  then show ?case by (simp add: dot_star_here)
next
  case (Cons c p)
  then have "dot_star k (p @ rest) \<noteq> None" by simp
  with Cons.prems show ?case by (auto split: option.splits)
qed

lemma dot_star_rest: "dot_star (\<lambda>rest. Some u) s = Some (first_line s, u)"
  by (induction s) (simp_all add: first_line_def)

lemma lit_Some: "lit l k s = Some r \<longleftrightarrow> (\<exists>rest. s = l @ rest \<and> k rest = Some r)"
  by (auto simp: lit_def prefix_def)

lemma first_line_append:
  "CHR 0x0A \<notin> set p \<Longrightarrow> first_line (p @ s) = p @ first_line s"
  by (induction p) (auto simp: first_line_def)

lemma first_line_no_newline: "CHR 0x0A \<notin> set (first_line s)"
  by (auto simp: first_line_def dest: set_takeWhileD)

text \<open>
  What the matcher accepts: the strings whose first line is some text, \<^verbatim>\<open>/projects/\<close>,
  a project, \<^verbatim>\<open>/global/images/\<close> and a version.
\<close>

lemma match_source_image_sound:
  assumes "match_source_image link = Some (proj, version)"
  shows "\<exists>before. first_line link = before @ ''/projects/'' @ proj @ ''/global/images/'' @ version"
proof -
  from assms obtain before where outer:
    "dot_star (lit ''/projects/'' (dot_star (lit ''/global/images/'' (dot_star (\<lambda>rest. Some ())))))
       link = Some (before, proj, version, ())"
    by (auto simp: match_source_image_def split: option.splits)
  from dot_star_Some [OF outer] obtain r1 where r1: "link = before @ r1"
    "lit ''/projects/'' (dot_star (lit ''/global/images/'' (dot_star (\<lambda>rest. Some ())))) r1
       = Some (proj, version, ())"
    "CHR 0x0A \<notin> set before"
    by blast
  from r1(2) obtain r2 where r2: "r1 = ''/projects/'' @ r2"
    "dot_star (lit ''/global/images/'' (dot_star (\<lambda>rest. Some ()))) r2 = Some (proj, version, ())"
    unfolding lit_Some by blast
  from dot_star_Some [OF r2(2)] obtain r3 where r3: "r2 = proj @ r3"
    "lit ''/global/images/'' (dot_star (\<lambda>rest. Some ())) r3 = Some (version, ())"
    "CHR 0x0A \<notin> set proj"
    by blast
  from r3(2) obtain r4 where r4: "r3 = ''/global/images/'' @ r4"
    "dot_star (\<lambda>rest. Some ()) r4 = Some (version, ())"
    unfolding lit_Some by blast
  from r4(2) have version: "version = first_line r4"
    by (simp add: dot_star_rest)
  define pre where "pre = before @ ''/projects/'' @ proj @ ''/global/images/''"
  have "link = pre @ r4"
    using r1(1) r2(1) r3(1) r4(1) by (simp add: pre_def)
  moreover have "CHR 0x0A \<notin> set pre"
    using r1(3) r3(3) by (simp add: pre_def)
  ultimately have "first_line link = pre @ first_line r4"
    by (simp add: first_line_append)
  with version show ?thesis by (auto simp: pre_def)
qed

lemma match_source_image_complete:
  assumes "first_line link = before @ ''/projects/'' @ proj @ ''/global/images/'' @ version"
  shows "match_source_image link \<noteq> None"
proof -
  have "link = first_line link @ dropWhile (\<lambda>c. c \<noteq> CHR 0x0A) link"
    by (simp add: first_line_def)
  with assms have link: "link = before @ ''/projects/'' @ proj @ ''/global/images/''
      @ (version @ dropWhile (\<lambda>c. c \<noteq> CHR 0x0A) link)"
    by simp
  from first_line_no_newline [of link] assms
  have clean: "CHR 0x0A \<notin> set before" "CHR 0x0A \<notin> set proj"
    by auto
  let ?tail = "version @ dropWhile (\<lambda>c. c \<noteq> CHR 0x0A) link"
  let ?inner = "lit ''/global/images/'' (dot_star (\<lambda>rest. Some ()))"
  have inner: "?inner (''/global/images/'' @ ?tail) \<noteq> None"
    by (simp add: lit_def dot_star_rest)
  have "dot_star ?inner (proj @ ''/global/images/'' @ ?tail) \<noteq> None"
    by (rule dot_star_complete [where k = ?inner, OF clean(2) inner])
  then have outer: "lit ''/projects/'' (dot_star ?inner)
      (''/projects/'' @ proj @ ''/global/images/'' @ ?tail) \<noteq> None"
    by (simp add: lit_def)
  have "dot_star (lit ''/projects/'' (dot_star ?inner))
      (before @ ''/projects/'' @ proj @ ''/global/images/'' @ ?tail) \<noteq> None"
    by (rule dot_star_complete [where k = "lit ''/projects/'' (dot_star ?inner)", OF clean(1) outer])
  with link have "dot_star (lit ''/projects/'' (dot_star ?inner)) link \<noteq> None"
    by simp
  then show ?thesis
    by (auto simp: match_source_image_def split: option.splits)
qed

lemma match_source_image_None:
  "match_source_image link = None \<longleftrightarrow>
   \<not> (\<exists>before proj version.
        first_line link = before @ ''/projects/'' @ proj @ ''/global/images/'' @ version)"
proof
  assume "match_source_image link = None"
  then show "\<not> (\<exists>before proj version.
        first_line link = before @ ''/projects/'' @ proj @ ''/global/images/'' @ version)"
    using match_source_image_complete by blast
next
  assume none: "\<not> (\<exists>before proj version.
        first_line link = before @ ''/projects/'' @ proj @ ''/global/images/'' @ version)"
  show "match_source_image link = None"
  proof (cases "match_source_image link")
    case (Some found)
    obtain proj version where "found = (proj, version)" by (cases found)
    with Some match_source_image_sound [of link proj version] none show ?thesis by blast
  qed simp
qed

lemma get_boot_images_first:
  "filter boot ds = d # others \<Longrightarrow> get_boot_images c ds = get_images c (initializeParams d)"
  by (induction ds) (auto split: if_splits)

lemma get_boot_images_none:
  "filter boot ds = [] \<Longrightarrow>
   get_boot_images c ds = Inl (OrchestrateInstanceCreationError ''Template has no boot disk.'')"
  by (induction ds) (auto split: if_splits)

text \<open>
  Claim C3, as the code has it. \<^verbatim>\<open>get_boot_images\<close> resolves the first disk that is
  flagged as a boot disk, whether others follow or not: its result is that of
  \<^verbatim>\<open>get_images\<close> on that disk, which is the image that the disk refers to together with
  the latest image of its family when the reference parses and both lookups succeed.
  When no disk is flagged it fails with \<open>OrchestrateInstanceCreationError\<close> and the
  message \<^verbatim>\<open>Template has no boot disk.\<close>
\<close>

theorem first_boot_disk_resolved:
  "(filter boot ds = [] \<longrightarrow>
      get_boot_images c ds = Inl (OrchestrateInstanceCreationError ''Template has no boot disk.''))
   \<and> (filter boot ds = d # others \<longrightarrow>
      get_boot_images c ds = get_images c (initializeParams d))
   \<and> (filter boot ds = d # others \<and> sourceImage (initializeParams d) = Some link
      \<and> match_source_image link = Some (proj, version) \<and> images_get c proj version = Inr img
      \<and> family img = Some fam \<and> images_getFromFamily c proj fam = Inr latest \<longrightarrow>
      get_boot_images c ds = Inr (img, latest))"
  by (auto simp: get_boot_images_none get_boot_images_first get_images_def)

theorem first_boot_disk_resolved_witness:
  "get_boot_images (cloud render_template visual_v1 (Inl (HttpError 500))) [data_disk]
   = Inl (OrchestrateInstanceCreationError ''Template has no boot disk.'')
   \<and> get_boot_images (cloud render_template visual_v1 (Inl (HttpError 500))) [data_disk, boot_disk]
     = get_images (cloud render_template visual_v1 (Inl (HttpError 500))) (initializeParams boot_disk)
   \<and> get_boot_images (cloud render_template visual_v1 (Inl (HttpError 500))) [data_disk, boot_disk]
     = Inr (visual_v1, visual_v2)"
proof -
  let ?c = "cloud render_template visual_v1 (Inl (HttpError 500))"
  have none: "filter boot [data_disk] = []"
    by (simp add: data_disk_def)
  have one: "filter boot [data_disk, boot_disk] = boot_disk # []"
    by (simp add: data_disk_def boot_disk_def)
  have parsed: "match_source_image
      ''https://www.googleapis.com/compute/v1/projects/media/global/images/visual-v1''
      = Some (''media'', ''visual-v1'')"
    by (simp add: match_source_image_def lit_def)
  have resolved: "filter boot [data_disk, boot_disk] = boot_disk # []
      \<and> sourceImage (initializeParams boot_disk)
        = Some ''https://www.googleapis.com/compute/v1/projects/media/global/images/visual-v1''
      \<and> match_source_image
          ''https://www.googleapis.com/compute/v1/projects/media/global/images/visual-v1''
        = Some (''media'', ''visual-v1'')
      \<and> images_get ?c ''media'' ''visual-v1'' = Inr visual_v1
      \<and> family visual_v1 = Some ''centos-7''
      \<and> images_getFromFamily ?c ''media'' ''centos-7'' = Inr visual_v2"
    using one parsed by (simp add: boot_disk_def cloud_def visual_v1_def)
  from first_boot_disk_resolved [of "[data_disk]" ?c, THEN conjunct1, THEN mp, OF none]
    first_boot_disk_resolved [of "[data_disk, boot_disk]" _ boot_disk "[]",
      THEN conjunct2, THEN conjunct1, THEN mp, OF one]
    first_boot_disk_resolved [THEN conjunct2, THEN conjunct2, THEN mp, OF resolved]
  show ?thesis by (intro conjI)
qed

text \<open>
  The claim as it is written fails: with two boot disks the images of the first are
  returned, and nothing is raised.
\<close>

theorem two_boot_disks_resolved:
  "filter boot [boot_disk, tools_disk] = [boot_disk, tools_disk]
   \<and> get_boot_images (cloud render_template visual_v1 (Inl (HttpError 500))) [boot_disk, tools_disk]
     = Inr (visual_v1, visual_v2)"
  by (simp add: inputs tools_disk_def get_images_def match_source_image_def lit_def)

text \<open>
  Claim C6, as the code has it. When the source image of a disk is not, up to its first
  newline, some text followed by \<^verbatim>\<open>/projects/\<close>, a project, \<^verbatim>\<open>/global/images/\<close> and a
  version, \<^verbatim>\<open>re.match\<close> returns \<^verbatim>\<open>None\<close> and \<^verbatim>\<open>match.group\<close> raises
  \<open>AttributeError\<close>: \<^verbatim>\<open>get_images\<close> fails with it, and so does \<^verbatim>\<open>get_boot_images\<close>
  when that disk is the first boot disk. The error is not one of the module's own.
\<close>

theorem malformed_reference_attribute_error:
  assumes "sourceImage parameters = Some link"
    and "\<not> (\<exists>before proj version.
        first_line link = before @ ''/projects/'' @ proj @ ''/global/images/'' @ version)"
  shows "get_images c parameters = Inl AttributeError
    \<and> \<not> is_domain_error AttributeError
    \<and> (filter boot ds = d # others \<and> initializeParams d = parameters \<longrightarrow>
       get_boot_images c ds = Inl AttributeError)"
proof -
  from assms(2) have "match_source_image link = None"
    by (rule match_source_image_None [THEN iffD2])
  with assms(1) have failed: "get_images c parameters = Inl AttributeError"
    by (simp add: get_images_def)
  then show ?thesis
    by (auto simp: get_boot_images_first is_domain_error_def)
qed

theorem malformed_reference_attribute_error_witness:
  "get_images (cloud render_template visual_v1 (Inl (HttpError 500))) (initializeParams bare_disk)
   = Inl AttributeError
   \<and> get_boot_images (cloud render_template visual_v1 (Inl (HttpError 500))) [data_disk, bare_disk]
     = Inl AttributeError"
proof -
  have link: "sourceImage (initializeParams bare_disk) = Some ''global/images/visual-v1''"
    by (simp add: bare_disk_def)
  have "match_source_image ''global/images/visual-v1'' = None"
    by (simp add: match_source_image_def lit_def)
  then have malformed: "\<not> (\<exists>before proj version.
      first_line ''global/images/visual-v1''
      = before @ ''/projects/'' @ proj @ ''/global/images/'' @ version)"
    by (rule match_source_image_None [THEN iffD1])
  have first: "filter boot [data_disk, bare_disk] = bare_disk # []
      \<and> initializeParams bare_disk = initializeParams bare_disk"
    by (simp add: data_disk_def bare_disk_def)
  note at_input = malformed_reference_attribute_error [OF link malformed,
      of "cloud render_template visual_v1 (Inl (HttpError 500))" "[data_disk, bare_disk]" bare_disk "[]"]
  from at_input [THEN conjunct1] at_input [THEN conjunct2, THEN conjunct2, THEN mp, OF first]
  show ?thesis by (intro conjI)
qed

text \<open>
  The claim as it is written fails: the reference \<^verbatim>\<open>global/images/visual-v1\<close> names no
  project, and the failure is an \<open>AttributeError\<close>, which is not an error of the
  module's own class.
\<close>

theorem malformed_reference_not_domain_error:
  "get_images (cloud render_template visual_v1 (Inl (HttpError 500))) (initializeParams bare_disk)
   = Inl AttributeError
   \<and> \<not> is_domain_error AttributeError"
  by (simp add: bare_disk_def get_images_def match_source_image_def lit_def is_domain_error_def)

end
